theory Spec2Isabelle
  imports Complex_Main
begin

section \<open>Exceptions\<close>

text \<open>
  The notebook has no exception classes of its own. Every exception it can see is
  raised by the interpreter or by a library; the model names the ones that the
  modelled calls raise.
\<close>

datatype py_error =
    NameError
  | AttributeError
  | TypeError
  | IndexError
  | ValueError
  | ImportError
  | InvalidArgumentError
  | FailedPreconditionError
  | RuntimeError
  | LibraryError string

section \<open>Rank-2 arrays\<close>

text \<open>
  The arrays of the multilayer-perceptron cells (\<open>x_np\<close>, \<open>W_h_np\<close>, \<open>W_y_np\<close>,
  \<open>h_np\<close>, \<open>y_np\<close>, \<open>y_target_np\<close>) all have two axes. An array carries its
  shape, as a NumPy array does, together with its rows. Entries are exact reals:
  rounding is not modelled.
\<close>

datatype 'a mat = Mat (nrows: nat) (ncols: nat) (rows: "'a list list")

definition wf_mat :: "'a mat \<Rightarrow> bool" where
  "wf_mat a \<longleftrightarrow> length (rows a) = nrows a \<and> list_all (\<lambda>r. length r = ncols a) (rows a)"

definition shape :: "'a mat \<Rightarrow> nat \<times> nat" where
  "shape a = (nrows a, ncols a)"

definition entry :: "'a mat \<Rightarrow> nat \<Rightarrow> nat \<Rightarrow> 'a" where
  "entry a i j = rows a ! i ! j"

definition map_mat :: "('a \<Rightarrow> 'b) \<Rightarrow> 'a mat \<Rightarrow> 'b mat" where
  "map_mat f a = Mat (nrows a) (ncols a) (map (map f) (rows a))"

subsection \<open>Broadcasting of elementwise binary operations\<close>

text \<open>
  NumPy stretches an axis of length 1 to the length of the other operand's axis and
  raises \<open>ValueError\<close> when two axes differ and neither has length 1.
\<close>

definition broadcast_dim :: "nat \<Rightarrow> nat \<Rightarrow> py_error + nat" where
  "broadcast_dim m n =
     (if m = n then Inr m else if m = 1 then Inr n else if n = 1 then Inr m
      else Inl ValueError)"

definition broadcast_to :: "nat \<Rightarrow> nat \<Rightarrow> 'a mat \<Rightarrow> 'a list list" where
  "broadcast_to r c a =
     map (\<lambda>row. if ncols a = c then row else replicate c (hd row))
       (if nrows a = r then rows a else replicate r (hd (rows a)))"

definition elementwise :: "('a \<Rightarrow> 'b \<Rightarrow> 'c) \<Rightarrow> 'a mat \<Rightarrow> 'b mat \<Rightarrow> py_error + 'c mat" where
  "elementwise f a b =
     (case broadcast_dim (nrows a) (nrows b) of
        Inl e \<Rightarrow> Inl e
      | Inr r \<Rightarrow>
          (case broadcast_dim (ncols a) (ncols b) of
             Inl e \<Rightarrow> Inl e
           | Inr c \<Rightarrow>
               Inr (Mat r c (map2 (map2 f) (broadcast_to r c a) (broadcast_to r c b)))))"

subsection \<open>The NumPy operations the notebook calls\<close>

text \<open>\<open>x > 0.\<close>: comparison with a scalar, giving a Boolean array of the same shape.\<close>

definition np_greater :: "real mat \<Rightarrow> real \<Rightarrow> bool mat" where
  "np_greater x s = map_mat (\<lambda>v. v > s) x"

text \<open>\<open>x * b\<close> with a Boolean right operand: \<open>True\<close> counts as 1, \<open>False\<close> as 0.\<close>

definition np_multiply_bool :: "real mat \<Rightarrow> bool mat \<Rightarrow> py_error + real mat" where
  "np_multiply_bool x b = elementwise (\<lambda>v c. v * of_bool c) x b"

definition np_subtract :: "real mat \<Rightarrow> real mat \<Rightarrow> py_error + real mat" where
  "np_subtract a b = elementwise (\<lambda>v w. v - w) a b"

text \<open>\<open>a ** 2\<close>.\<close>

definition np_square :: "real mat \<Rightarrow> real mat" where
  "np_square a = map_mat (\<lambda>v. v ^ 2) a"

text \<open>
  \<open>np.dot\<close> of two rank-2 arrays is the matrix product; it raises \<open>ValueError\<close>
  when the inner dimensions differ.
\<close>

definition column :: "'a mat \<Rightarrow> nat \<Rightarrow> 'a list" where
  "column b j = map (\<lambda>r. r ! j) (rows b)"

definition dot_row :: "real list \<Rightarrow> real mat \<Rightarrow> real list" where
  "dot_row r b = map (\<lambda>j. sum_list (map2 (*) r (column b j))) [0..<ncols b]"

definition matrix_product :: "real mat \<Rightarrow> real mat \<Rightarrow> real mat" where
  "matrix_product a b = Mat (nrows a) (ncols b) (map (\<lambda>r. dot_row r b) (rows a))"

definition np_dot :: "real mat \<Rightarrow> real mat \<Rightarrow> py_error + real mat" where
  "np_dot a b = (if ncols a = nrows b then Inr (matrix_product a b) else Inl ValueError)"

text \<open>
  \<open>np.mean\<close> over all entries. On an array with no entries NumPy divides 0 by 0 and
  returns \<open>nan\<close> (with a warning, not an exception); \<open>None\<close> stands for that
  \<open>nan\<close>, which is not a real number.
\<close>

definition np_mean :: "real mat \<Rightarrow> real option" where
  "np_mean a =
     (if nrows a * ncols a = 0 then None
      else Some (sum_list (concat (rows a)) / real (nrows a * ncols a)))"

section \<open>The multilayer perceptron in NumPy\<close>

text \<open>
  \<^verbatim>\<open>
  def relu(x):
      return x * (x>0.)
  \<close>
\<close>

definition relu :: "real mat \<Rightarrow> py_error + real mat" where
  "relu x = np_multiply_bool x (np_greater x 0)"

text \<open>
  \<^verbatim>\<open>
  h_np = relu(np.dot(x_np, W_h_np))
  y_np = np.dot(h_np, W_y_np)
  \<close>
\<close>

definition h_np :: "real mat \<Rightarrow> real mat \<Rightarrow> py_error + real mat" where
  "h_np x_np W_h_np = (case np_dot x_np W_h_np of Inl e \<Rightarrow> Inl e | Inr z \<Rightarrow> relu z)"

definition y_np :: "real mat \<Rightarrow> real mat \<Rightarrow> real mat \<Rightarrow> py_error + real mat" where
  "y_np x_np W_h_np W_y_np =
     (case h_np x_np W_h_np of Inl e \<Rightarrow> Inl e | Inr h \<Rightarrow> np_dot h W_y_np)"

text \<open>
  \<^verbatim>\<open>
  loss_np = np.mean((y_target_np - y_np)**2)
  \<close>
\<close>

definition loss_np :: "real mat \<Rightarrow> real mat \<Rightarrow> py_error + real option" where
  "loss_np y_target y =
     (case np_subtract y_target y of Inl e \<Rightarrow> Inl e | Inr d \<Rightarrow> Inr (np_mean (np_square d)))"

text \<open>The hyperparameters of the cell.\<close>

definition batch_size :: nat where "batch_size = 5"
definition n_x :: nat where "n_x = 10"
definition n_h :: nat where "n_h = 100"
definition n_y :: nat where "n_y = 3"

section \<open>The library's rectified linear unit\<close>

text \<open>
  \<open>tf.nn.relu\<close> is not code of the notebook. It is modelled by its documented
  meaning: every entry \<open>v\<close> becomes \<open>max v 0\<close>, the shape is kept.
\<close>

definition tf_nn_relu :: "real mat \<Rightarrow> real mat" where
  "tf_nn_relu x = map_mat (\<lambda>v. max v 0) x"

section \<open>Arrays of any rank\<close>

datatype 'a ndarray = NDArray (nd_shape: "nat list") (nd_data: "'a list")

definition wf_ndarray :: "'a ndarray \<Rightarrow> bool" where
  "wf_ndarray a \<longleftrightarrow> length (nd_data a) = prod_list (nd_shape a)"

definition np_true_divide :: "real ndarray \<Rightarrow> real \<Rightarrow> real ndarray" where
  "np_true_divide a s = NDArray (nd_shape a) (map (\<lambda>v. v / s) (nd_data a))"

definition np_reshape :: "'a ndarray \<Rightarrow> int list \<Rightarrow> py_error + 'a ndarray" where
  "np_reshape a dims =
     (let size = length (nd_data a);
          known = prod_list (map nat (filter (\<lambda>d. d \<noteq> -1) dims))
      in if \<exists>d \<in> set dims. d < -1 then Inl ValueError
         else if length (filter (\<lambda>d. d = -1) dims) > 1 then Inl ValueError
         else if length (filter (\<lambda>d. d = -1) dims) = 0 then
           (if known = size then Inr (NDArray (map nat dims) (nd_data a)) else Inl ValueError)
         else if known = 0 \<or> size mod known \<noteq> 0 then Inl ValueError
         else Inr (NDArray (map (\<lambda>d. if d = -1 then size div known else nat d) dims) (nd_data a)))"

definition nd_index :: "'a ndarray \<Rightarrow> int \<Rightarrow> py_error + 'a ndarray" where
  "nd_index a i =
     (case nd_shape a of
        [] \<Rightarrow> Inl IndexError
      | n # rest \<Rightarrow>
          (let j = (if i < 0 then int n + i else i); k = prod_list rest
           in if 0 \<le> j \<and> j < int n
              then Inr (NDArray rest (take k (drop (nat j * k) (nd_data a))))
              else Inl IndexError))"

definition shape_at :: "'a ndarray \<Rightarrow> int \<Rightarrow> py_error + nat" where
  "shape_at a i =
     (let n = int (length (nd_shape a)); j = (if i < 0 then n + i else i)
      in if 0 \<le> j \<and> j < n then Inr (nd_shape a ! nat j) else Inl IndexError)"

section \<open>Values\<close>

datatype tensor =
    Placeholder nat "nat option" "nat option"
  | Variable string nat nat
  | Const "real mat"
  | MatMul tensor tensor
  | Relu tensor
  | Sub tensor tensor
  | Square tensor

datatype scalar_tensor = ReduceMean tensor

datatype session = Session (closed: bool) (store: "(string \<times> real mat) list")

datatype activation = Linear | ReLU

datatype dense =
  Dense (units: nat) (act: activation) (input_dim: "nat option") (kernel: "real mat option")

datatype pyval =
    VNone
  | VBool bool
  | VInt int
  | VFloat "real option"
  | VMat "real mat"
  | VNd "real ndarray"
  | VTensor tensor
  | VScalar scalar_tensor
  | VInit pyval
  | VInitOp "(string \<times> nat \<times> nat \<times> pyval) list"
  | VMinimize real scalar_tensor "string list"
  | VSession session
  | VOptimizer real
  | VLayer dense
  | VModel "dense list"
  | VList "pyval list"
  | VTuple "pyval list"
  | VModule string
  | VObject string "pyval list"

datatype cell_output =
    Printed "pyval list"
  | Displayed pyval
  | Scatter "real mat" "real mat"
  | Figure
  | Plot "pyval list" "pyval list"
  | Imshow "real ndarray"
  | Colorbar
  | Summary pyval

record world =
  globals :: "string \<Rightarrow> pyval option"
  tf_variables :: "(string \<times> nat \<times> nat \<times> pyval) list"
  tf_placeholders :: nat
  tf_open_sessions :: nat
  out :: "cell_output list"
  calls :: "(string \<times> py_error option) list"
  faults :: "nat \<Rightarrow> py_error option"
  env_opaque :: "string \<Rightarrow> pyval list \<Rightarrow> pyval"
  env_glorot :: "nat \<Rightarrow> nat \<Rightarrow> real mat"

section \<open>Running notebook code\<close>

type_synonym 'a nb = "world \<Rightarrow> (py_error + 'a) \<times> world"
type_synonym stmt = "world \<Rightarrow> world \<times> py_error option"
type_synonym libfun = "pyval list \<Rightarrow> world \<Rightarrow> py_error + (pyval \<times> world)"
type_synonym libmethod = "pyval \<Rightarrow> pyval list \<Rightarrow> world \<Rightarrow> py_error + (pyval \<times> pyval \<times> world)"

subsection \<open>Expressions\<close>

definition var :: "string \<Rightarrow> pyval nb" where
  "var n w = (case globals w n of None \<Rightarrow> (Inl NameError, w) | Some v \<Rightarrow> (Inr v, w))"

definition const :: "pyval \<Rightarrow> pyval nb" where
  "const v w = (Inr v, w)"

fun args :: "pyval nb list \<Rightarrow> pyval list nb" where
  "args [] w = (Inr [], w)"
| "args (e # es) w =
     (case e w of
        (Inl x, w1) \<Rightarrow> (Inl x, w1)
      | (Inr v, w1) \<Rightarrow>
          (case args es w1 of
             (Inl x, w2) \<Rightarrow> (Inl x, w2)
           | (Inr vs, w2) \<Rightarrow> (Inr (v # vs), w2)))"

definition logged :: "string \<Rightarrow> py_error option \<Rightarrow> world \<Rightarrow> world" where
  "logged name r w = w\<lparr>calls := calls w @ [(name, r)]\<rparr>"

definition invoke :: "string \<Rightarrow> libfun \<Rightarrow> pyval list \<Rightarrow> pyval nb" where
  "invoke name f vs w =
     (case faults w (length (calls w)) of
        Some e \<Rightarrow> (Inl e, logged name (Some e) w)
      | None \<Rightarrow>
          (case f vs w of
             Inl e \<Rightarrow> (Inl e, logged name (Some e) w)
           | Inr (v, w') \<Rightarrow> (Inr v, logged name None (w'\<lparr>calls := calls w, faults := faults w\<rparr>))))"

definition op :: "string \<Rightarrow> libfun \<Rightarrow> pyval nb list \<Rightarrow> pyval nb" where
  "op name f es w =
     (case args es w of (Inl x, w1) \<Rightarrow> (Inl x, w1) | (Inr vs, w1) \<Rightarrow> invoke name f vs w1)"

definition call :: "string \<Rightarrow> string \<Rightarrow> libfun \<Rightarrow> pyval nb list \<Rightarrow> pyval nb" where
  "call m name f es w =
     (case globals w m of
        None \<Rightarrow> (Inl NameError, w)
      | Some (VModule _) \<Rightarrow> op (m @ ''.'' @ name) f es w
      | Some _ \<Rightarrow> (Inl AttributeError, w))"

definition callv :: "string \<Rightarrow> libfun \<Rightarrow> pyval nb list \<Rightarrow> pyval nb" where
  "callv c f es w =
     (case globals w c of
        None \<Rightarrow> (Inl NameError, w)
      | Some (VModule _) \<Rightarrow> op c f es w
      | Some _ \<Rightarrow> (Inl TypeError, w))"

definition call_method :: "string \<Rightarrow> string \<Rightarrow> (pyval \<Rightarrow> bool) \<Rightarrow> libmethod \<Rightarrow> pyval nb list \<Rightarrow> pyval nb" where
  "call_method v name has f es w =
     (case globals w v of
        None \<Rightarrow> (Inl NameError, w)
      | Some obj \<Rightarrow>
          if \<not> has obj then (Inl AttributeError, w)
          else op (v @ ''.'' @ name)
                 (\<lambda>vs w1. case f obj vs w1 of
                     Inl e \<Rightarrow> Inl e
                   | Inr (r, obj', w2) \<Rightarrow> Inr (r, w2\<lparr>globals := (globals w2)(v \<mapsto> obj')\<rparr>))
                 es w)"

definition pure :: "(pyval list \<Rightarrow> py_error + pyval) \<Rightarrow> pyval nb list \<Rightarrow> pyval nb" where
  "pure f es w =
     (case args es w of
        (Inl x, w1) \<Rightarrow> (Inl x, w1)
      | (Inr vs, w1) \<Rightarrow> (f vs, w1))"

definition list_display :: "pyval nb list \<Rightarrow> pyval nb" where
  "list_display es = pure (\<lambda>vs. Inr (VList vs)) es"

definition tuple_display :: "pyval nb list \<Rightarrow> pyval nb" where
  "tuple_display es = pure (\<lambda>vs. Inr (VTuple vs)) es"

subsection \<open>Statements\<close>

definition bind_name :: "string \<Rightarrow> pyval \<Rightarrow> world \<Rightarrow> world" where
  "bind_name n v w = w\<lparr>globals := (globals w)(n \<mapsto> v)\<rparr>"

definition assign :: "string \<Rightarrow> pyval nb \<Rightarrow> stmt" where
  "assign n e w =
     (case e w of (Inl x, w1) \<Rightarrow> (w1, Some x) | (Inr v, w1) \<Rightarrow> (bind_name n v w1, None))"

datatype target = T string | TT "target list"

fun bind_target :: "target \<Rightarrow> pyval \<Rightarrow> world \<Rightarrow> world \<times> py_error option"
  and bind_targets :: "target list \<Rightarrow> pyval list \<Rightarrow> world \<Rightarrow> world \<times> py_error option" where
  "bind_target (T n) v w = (bind_name n v w, None)"
| "bind_target (TT ts) v w =
     (case v of
        VTuple vs \<Rightarrow> if length vs = length ts then bind_targets ts vs w else (w, Some ValueError)
      | VList vs \<Rightarrow> if length vs = length ts then bind_targets ts vs w else (w, Some ValueError)
      | _ \<Rightarrow> (w, Some TypeError))"
| "bind_targets [] vs w = (w, None)"
| "bind_targets (t # ts) vs w =
     (case vs of
        [] \<Rightarrow> (w, Some ValueError)
      | v # vs' \<Rightarrow>
          (case bind_target t v w of
             (w1, Some e) \<Rightarrow> (w1, Some e)
           | (w1, None) \<Rightarrow> bind_targets ts vs' w1))"

definition unpack :: "target \<Rightarrow> pyval nb \<Rightarrow> stmt" where
  "unpack t e w =
     (case e w of (Inl x, w1) \<Rightarrow> (w1, Some x) | (Inr v, w1) \<Rightarrow> bind_target t v w1)"

definition expr :: "pyval nb \<Rightarrow> stmt" where
  "expr e w = (case e w of (Inl x, w1) \<Rightarrow> (w1, Some x) | (Inr v, w1) \<Rightarrow> (w1, None))"

definition display :: "pyval nb \<Rightarrow> stmt" where
  "display e w =
     (case e w of
        (Inl x, w1) \<Rightarrow> (w1, Some x)
      | (Inr v, w1) \<Rightarrow> ((if v = VNone then w1 else w1\<lparr>out := out w1 @ [Displayed v]\<rparr>), None))"

definition import_name :: "string \<Rightarrow> string \<Rightarrow> stmt" where
  "import_name n lib = assign n (invoke (''import '' @ lib) (\<lambda>vs w. Inr (VModule lib, w)) [])"

fun seq :: "stmt list \<Rightarrow> stmt" where
  "seq [] w = (w, None)"
| "seq (s # ss) w = (case s w of (w1, Some e) \<Rightarrow> (w1, Some e) | (w1, None) \<Rightarrow> seq ss w1)"

definition for_range :: "string \<Rightarrow> nat \<Rightarrow> stmt \<Rightarrow> stmt" where
  "for_range n k body = seq (map (\<lambda>i. seq [assign n (const (VInt (int i))), body]) [0..<k])"

fun truthy :: "pyval \<Rightarrow> bool" where
  "truthy VNone = False"
| "truthy (VBool b) = b"
| "truthy (VInt i) = (i \<noteq> 0)"
| "truthy (VFloat r) = (r \<noteq> Some 0)"
| "truthy (VList vs) = (vs \<noteq> [])"
| "truthy (VTuple vs) = (vs \<noteq> [])"
| "truthy _ = True"

definition if_true :: "pyval nb \<Rightarrow> stmt \<Rightarrow> stmt" where
  "if_true c body w =
     (case c w of
        (Inl x, w1) \<Rightarrow> (w1, Some x)
      | (Inr v, w1) \<Rightarrow> (if truthy v then body w1 else (w1, None)))"

section \<open>The TensorFlow calls of the notebook\<close>

text \<open>
  TensorFlow is not code of the notebook. Its calls are modelled by their documented
  meaning, for the arguments the notebook passes. The default graph is the list of its
  variables and the number of its placeholders; a tensor is the expression that
  computes it. Shapes are checked when a tensor is evaluated in a session.
\<close>

definition dim_of :: "pyval \<Rightarrow> py_error + nat option" where
  "dim_of v =
     (case v of
        VNone \<Rightarrow> Inr None
      | VInt i \<Rightarrow> (if 0 \<le> i then Inr (Some (nat i)) else Inl ValueError)
      | _ \<Rightarrow> Inl TypeError)"

definition as_tensor :: "pyval \<Rightarrow> tensor option" where
  "as_tensor v = (case v of VTensor t \<Rightarrow> Some t | VMat m \<Rightarrow> Some (Const m) | _ \<Rightarrow> None)"

definition tf_reset_default_graph :: libfun where
  "tf_reset_default_graph vs w =
     (case vs of
        [] \<Rightarrow> Inr (VNone, w\<lparr>tf_variables := [], tf_placeholders := 0\<rparr>)
      | _ \<Rightarrow> Inl TypeError)"

text \<open>\<open>tf.placeholder(tf.float32, (r, c))\<close>\<close>

definition tf_placeholder :: libfun where
  "tf_placeholder vs w =
     (case vs of
        [r, c] \<Rightarrow>
          (case dim_of r of
             Inl e \<Rightarrow> Inl e
           | Inr dr \<Rightarrow>
               (case dim_of c of
                  Inl e \<Rightarrow> Inl e
                | Inr dc \<Rightarrow>
                    Inr (VTensor (Placeholder (tf_placeholders w) dr dc),
                         w\<lparr>tf_placeholders := Suc (tf_placeholders w)\<rparr>)))
      | _ \<Rightarrow> Inl TypeError)"

definition tf_constant_initializer :: libfun where
  "tf_constant_initializer vs w = (case vs of [v] \<Rightarrow> Inr (VInit v, w) | _ \<Rightarrow> Inl TypeError)"

text \<open>\<open>tf.get_variable(name, shape=(r, c), initializer=init)\<close>\<close>

definition tf_get_variable :: "string \<Rightarrow> libfun" where
  "tf_get_variable name vs w =
     (case vs of
        [VInt r, VInt c, VInit v] \<Rightarrow>
          (if name \<in> fst ` set (tf_variables w) \<or> r < 0 \<or> c < 0 then Inl ValueError
           else Inr (VTensor (Variable name (nat r) (nat c)),
                     w\<lparr>tf_variables := tf_variables w @ [(name, nat r, nat c, v)]\<rparr>))
      | _ \<Rightarrow> Inl TypeError)"

definition tensor_op2 :: "(tensor \<Rightarrow> tensor \<Rightarrow> tensor) \<Rightarrow> libfun" where
  "tensor_op2 node vs w =
     (case vs of
        [a, b] \<Rightarrow>
          (case as_tensor a of
             None \<Rightarrow> Inl TypeError
           | Some s \<Rightarrow>
               (case as_tensor b of
                  None \<Rightarrow> Inl TypeError
                | Some t \<Rightarrow> Inr (VTensor (node s t), w)))
      | _ \<Rightarrow> Inl TypeError)"

definition tensor_op1 :: "(tensor \<Rightarrow> pyval) \<Rightarrow> libfun" where
  "tensor_op1 node vs w =
     (case vs of
        [a] \<Rightarrow> (case as_tensor a of None \<Rightarrow> Inl TypeError | Some t \<Rightarrow> Inr (node t, w))
      | _ \<Rightarrow> Inl TypeError)"

definition tf_matmul :: libfun where
  "tf_matmul = tensor_op2 MatMul"

definition tf_relu :: libfun where
  "tf_relu = tensor_op1 (\<lambda>t. VTensor (Relu t))"

text \<open>\<open>a - b\<close> on tensors.\<close>

definition tf_subtract :: libfun where
  "tf_subtract = tensor_op2 Sub"

text \<open>\<open>a ** 2\<close> on a tensor.\<close>

definition tf_square :: libfun where
  "tf_square = tensor_op1 (\<lambda>t. VTensor (Square t))"

definition tf_reduce_mean :: libfun where
  "tf_reduce_mean = tensor_op1 (\<lambda>t. VScalar (ReduceMean t))"

definition tf_global_variables_initializer :: libfun where
  "tf_global_variables_initializer vs w =
     (case vs of [] \<Rightarrow> Inr (VInitOp (tf_variables w), w) | _ \<Rightarrow> Inl TypeError)"

text \<open>\<open>tf.train.GradientDescentOptimizer(learning_rate=lr)\<close>\<close>

definition tf_GradientDescentOptimizer :: "real \<Rightarrow> libfun" where
  "tf_GradientDescentOptimizer lr vs w =
     (case vs of [] \<Rightarrow> Inr (VOptimizer lr, w) | _ \<Rightarrow> Inl TypeError)"

text \<open>\<open>opt.minimize(loss)\<close>: an operation that updates every variable of the graph.\<close>

definition optimizer_minimize :: libmethod where
  "optimizer_minimize obj vs w =
     (case (obj, vs) of
        (VOptimizer lr, [VScalar l]) \<Rightarrow>
          (if tf_variables w = [] then Inl ValueError
           else Inr (VMinimize lr l (map fst (tf_variables w)), VOptimizer lr, w))
      | _ \<Rightarrow> Inl TypeError)"

definition is_optimizer :: "pyval \<Rightarrow> bool" where
  "is_optimizer v = (case v of VOptimizer _ \<Rightarrow> True | _ \<Rightarrow> False)"

subsection \<open>Evaluating a tensor\<close>

type_synonym var_store = "(string \<times> real mat) list"
type_synonym feed_dict = "(tensor \<times> real mat) list"

definition tf_error :: "py_error + 'a \<Rightarrow> py_error + 'a" where
  "tf_error r = (case r of Inl _ \<Rightarrow> Inl InvalidArgumentError | Inr v \<Rightarrow> Inr v)"

fun eval :: "var_store \<Rightarrow> feed_dict \<Rightarrow> tensor \<Rightarrow> py_error + real mat" where
  "eval s f (Placeholder i r c) =
     (case map_of f (Placeholder i r c) of
        None \<Rightarrow> Inl InvalidArgumentError
      | Some v \<Rightarrow> Inr v)"
| "eval s f (Variable n r c) =
     (case map_of s n of None \<Rightarrow> Inl FailedPreconditionError | Some v \<Rightarrow> Inr v)"
| "eval s f (Const m) = Inr m"
| "eval s f (MatMul a b) =
     (case eval s f a of
        Inl e \<Rightarrow> Inl e
      | Inr va \<Rightarrow>
          (case eval s f b of
             Inl e \<Rightarrow> Inl e
           | Inr vb \<Rightarrow>
               if ncols va = nrows vb then Inr (matrix_product va vb)
               else Inl InvalidArgumentError))"
| "eval s f (Relu a) =
     (case eval s f a of Inl e \<Rightarrow> Inl e | Inr va \<Rightarrow> Inr (tf_nn_relu va))"
| "eval s f (Sub a b) =
     (case eval s f a of
        Inl e \<Rightarrow> Inl e
      | Inr va \<Rightarrow>
          (case eval s f b of
             Inl e \<Rightarrow> Inl e
           | Inr vb \<Rightarrow> tf_error (elementwise (\<lambda>v w. v - w) va vb)))"
| "eval s f (Square a) =
     (case eval s f a of Inl e \<Rightarrow> Inl e | Inr va \<Rightarrow> Inr (map_mat (\<lambda>v. v ^ 2) va))"

fun eval_scalar :: "var_store \<Rightarrow> feed_dict \<Rightarrow> scalar_tensor \<Rightarrow> py_error + real option" where
  "eval_scalar s f (ReduceMean a) =
     (case eval s f a of Inl e \<Rightarrow> Inl e | Inr va \<Rightarrow> Inr (np_mean va))"

subsection \<open>Gradients\<close>

text \<open>
  \<open>opt.minimize(loss)\<close> differentiates the loss with respect to the variables by
  reverse-mode differentiation of the graph, as \<open>tf.gradients\<close> does: the gradient that
  reaches a node is handed to its operands, multiplied by the local derivative of the
  node. For a matrix product \<open>a . b\<close> the operands receive \<open>g . b\<^sup>T\<close> and \<open>a\<^sup>T . g\<close>;
  \<open>relu\<close> passes the gradient on where its operand is positive and gives 0 elsewhere
  (also at 0); a difference passes \<open>g\<close> and \<open>-g\<close>, summed over the axes that were
  stretched; a square multiplies by twice its operand; the mean starts with \<open>1 / n\<close> in
  each of its \<open>n\<close> entries. The gradient of a variable is the sum of what reaches it.
\<close>

definition value_of :: "var_store \<Rightarrow> feed_dict \<Rightarrow> tensor \<Rightarrow> real mat" where
  "value_of s f t = (case eval s f t of Inl e \<Rightarrow> Mat 0 0 [] | Inr v \<Rightarrow> v)"

definition transpose_mat :: "real mat \<Rightarrow> real mat" where
  "transpose_mat a = Mat (ncols a) (nrows a) (map (column a) [0..<ncols a])"

definition hadamard :: "real mat \<Rightarrow> real mat \<Rightarrow> real mat" where
  "hadamard a b = Mat (nrows a) (ncols a) (map2 (map2 (*)) (rows a) (rows b))"

definition mat_add :: "real mat \<Rightarrow> real mat \<Rightarrow> real mat" where
  "mat_add a b = Mat (nrows a) (ncols a) (map2 (map2 (+)) (rows a) (rows b))"

definition sum_rows :: "real mat \<Rightarrow> real mat" where
  "sum_rows g = Mat 1 (ncols g) [map (\<lambda>j. sum_list (column g j)) [0..<ncols g]]"

definition sum_cols :: "real mat \<Rightarrow> real mat" where
  "sum_cols g = Mat (nrows g) 1 (map (\<lambda>r. [sum_list r]) (rows g))"

definition unbroadcast :: "nat \<Rightarrow> nat \<Rightarrow> real mat \<Rightarrow> real mat" where
  "unbroadcast r c g =
     (let g1 = (if nrows g = r then g else sum_rows g)
      in if ncols g1 = c then g1 else sum_cols g1)"

fun backprop :: "var_store \<Rightarrow> feed_dict \<Rightarrow> tensor \<Rightarrow> real mat \<Rightarrow> (string \<times> real mat) list" where
  "backprop s f (Placeholder i r c) g = []"
| "backprop s f (Variable n r c) g = [(n, g)]"
| "backprop s f (Const m) g = []"
| "backprop s f (MatMul a b) g =
     backprop s f a (matrix_product g (transpose_mat (value_of s f b)))
     @ backprop s f b (matrix_product (transpose_mat (value_of s f a)) g)"
| "backprop s f (Relu a) g =
     backprop s f a (hadamard g (map_mat (\<lambda>v. if v > 0 then 1 else 0) (value_of s f a)))"
| "backprop s f (Sub a b) g =
     backprop s f a (unbroadcast (nrows (value_of s f a)) (ncols (value_of s f a)) g)
     @ backprop s f b
         (map_mat uminus (unbroadcast (nrows (value_of s f b)) (ncols (value_of s f b)) g))"
| "backprop s f (Square a) g =
     backprop s f a (hadamard g (map_mat (\<lambda>v. 2 * v) (value_of s f a)))"

text \<open>The gradient of the scalar \<open>l\<close> with respect to the variable \<open>n\<close>, at the values \<open>s\<close>.\<close>

definition tf_gradients :: "scalar_tensor \<Rightarrow> var_store \<Rightarrow> feed_dict \<Rightarrow> string \<Rightarrow> real mat" where
  "tf_gradients l s f n =
     (case l of
        ReduceMean a \<Rightarrow>
          (case map_of s n of
             None \<Rightarrow> Mat 0 0 []
           | Some W \<Rightarrow>
               foldl mat_add (map_mat (\<lambda>v. 0) W)
                 (map snd (filter (\<lambda>p. fst p = n)
                    (backprop s f a
                       (map_mat (\<lambda>v. 1 / real (nrows (value_of s f a) * ncols (value_of s f a)))
                          (value_of s f a)))))))"

subsection \<open>Sessions\<close>

text \<open>The value a constant initializer gives to a variable of shape \<open>(r, c)\<close>.\<close>

definition initial_value :: "nat \<Rightarrow> nat \<Rightarrow> pyval \<Rightarrow> py_error + real mat" where
  "initial_value r c v =
     (case v of
        VMat m \<Rightarrow> (if shape m = (r, c) then Inr m else Inl ValueError)
      | VFloat (Some x) \<Rightarrow> Inr (Mat r c (replicate r (replicate c x)))
      | VInt i \<Rightarrow> Inr (Mat r c (replicate r (replicate c (of_int i))))
      | _ \<Rightarrow> Inl TypeError)"

fun run_initializers :: "(string \<times> nat \<times> nat \<times> pyval) list \<Rightarrow> py_error + var_store" where
  "run_initializers [] = Inr []"
| "run_initializers ((n, r, c, v) # vs) =
     (case initial_value r c v of
        Inl e \<Rightarrow> Inl e
      | Inr m \<Rightarrow>
          (case run_initializers vs of Inl e \<Rightarrow> Inl e | Inr s \<Rightarrow> Inr ((n, m) # s)))"

text \<open>
  One step of gradient descent on the variables \<open>vars\<close>: every variable \<open>W\<close> becomes
  \<open>W - lr * g\<close>, where \<open>g\<close> is the gradient of the loss with respect to \<open>W\<close> at the
  current values. A gradient of another shape than its variable is refused.
\<close>

definition descend :: "real \<Rightarrow> real mat \<Rightarrow> real mat \<Rightarrow> real mat" where
  "descend lr W g = Mat (nrows W) (ncols W) (map2 (map2 (\<lambda>v d. v - lr * d)) (rows W) (rows g))"

definition gradient_descent_step ::
  "(string \<Rightarrow> real mat) \<Rightarrow> real \<Rightarrow> string list \<Rightarrow> var_store \<Rightarrow> py_error + var_store" where
  "gradient_descent_step grad lr vars s =
     (if \<not> set vars \<subseteq> fst ` set s then Inl FailedPreconditionError
      else if \<not> list_all (\<lambda>(n, W). n \<in> set vars \<longrightarrow> wf_mat (grad n) \<and> shape (grad n) = shape W) s
      then Inl InvalidArgumentError
      else Inr (map (\<lambda>(n, W). if n \<in> set vars then (n, descend lr W (grad n)) else (n, W)) s))"

definition fetch_value :: "var_store \<Rightarrow> feed_dict \<Rightarrow> pyval \<Rightarrow> py_error + pyval" where
  "fetch_value s f x =
     (case x of
        VTensor t \<Rightarrow> (case eval s f t of Inl e \<Rightarrow> Inl e | Inr m \<Rightarrow> Inr (VMat m))
      | VScalar t \<Rightarrow> (case eval_scalar s f t of Inl e \<Rightarrow> Inl e | Inr v \<Rightarrow> Inr (VFloat v))
      | VInitOp vs \<Rightarrow> Inr VNone
      | VMinimize lr l vars \<Rightarrow> Inr VNone
      | _ \<Rightarrow> Inl TypeError)"

fun fetch_values :: "var_store \<Rightarrow> feed_dict \<Rightarrow> pyval list \<Rightarrow> py_error + pyval list" where
  "fetch_values s f [] = Inr []"
| "fetch_values s f (x # xs) =
     (case fetch_value s f x of
        Inl e \<Rightarrow> Inl e
      | Inr v \<Rightarrow> (case fetch_values s f xs of Inl e \<Rightarrow> Inl e | Inr vs \<Rightarrow> Inr (v # vs)))"

definition run_operation :: "feed_dict \<Rightarrow> pyval \<Rightarrow> var_store \<Rightarrow> py_error + var_store" where
  "run_operation f x s =
     (case x of
        VInitOp vs \<Rightarrow> run_initializers vs
      | VMinimize lr l vars \<Rightarrow>
          (case eval_scalar s f l of
             Inl e \<Rightarrow> Inl e
           | Inr _ \<Rightarrow> gradient_descent_step (tf_gradients l s f) lr vars s)
      | _ \<Rightarrow> Inr s)"

fun run_operations :: "feed_dict \<Rightarrow> pyval list \<Rightarrow> var_store \<Rightarrow> py_error + var_store" where
  "run_operations f [] s = Inr s"
| "run_operations f (x # xs) s =
     (case run_operation f x s of Inl e \<Rightarrow> Inl e | Inr s1 \<Rightarrow> run_operations f xs s1)"

text \<open>
  What \<open>sess.run(fetches, feed_dict)\<close> returns and the variable values it leaves. The
  values fetched are computed from the variables as they are before any operation of
  the same call changes them.
\<close>

definition run_fetches ::
  "var_store \<Rightarrow> feed_dict \<Rightarrow> pyval \<Rightarrow> py_error + (pyval \<times> var_store)" where
  "run_fetches s f fetch =
     (case fetch of
        VList xs \<Rightarrow>
          (case fetch_values s f xs of
             Inl e \<Rightarrow> Inl e
           | Inr vs \<Rightarrow>
               (case run_operations f xs s of
                  Inl e \<Rightarrow> Inl e
                | Inr s1 \<Rightarrow> Inr (VList vs, s1)))
      | x \<Rightarrow>
          (case fetch_value s f x of
             Inl e \<Rightarrow> Inl e
           | Inr v \<Rightarrow>
               (case run_operation f x s of
                  Inl e \<Rightarrow> Inl e
                | Inr s1 \<Rightarrow> Inr (v, s1))))"

fun parse_feed :: "pyval list \<Rightarrow> feed_dict option" where
  "parse_feed [] = Some []"
| "parse_feed [k] = None"
| "parse_feed (k # v # rest) =
     (case (k, v) of
        (VTensor (Placeholder i r c), VMat m) \<Rightarrow>
          (case parse_feed rest of None \<Rightarrow> None | Some f \<Rightarrow> Some ((Placeholder i r c, m) # f))
      | _ \<Rightarrow> None)"

definition dim_accepts :: "nat option \<Rightarrow> nat \<Rightarrow> bool" where
  "dim_accepts d n = (case d of None \<Rightarrow> True | Some m \<Rightarrow> m = n)"

definition feed_accepted :: "tensor \<times> real mat \<Rightarrow> bool" where
  "feed_accepted kv =
     (case kv of
        (Placeholder i r c, v) \<Rightarrow> dim_accepts r (nrows v) \<and> dim_accepts c (ncols v)
      | _ \<Rightarrow> False)"

definition is_session :: "pyval \<Rightarrow> bool" where
  "is_session v = (case v of VSession _ \<Rightarrow> True | _ \<Rightarrow> False)"

definition tf_Session :: libfun where
  "tf_Session vs w =
     (case vs of
        [] \<Rightarrow> Inr (VSession (Session False []), w\<lparr>tf_open_sessions := Suc (tf_open_sessions w)\<rparr>)
      | _ \<Rightarrow> Inl TypeError)"

text \<open>
  \<open>sess.run(fetch, feed_dict={k1: v1, ...})\<close>; the arguments are the fetch and then the
  keys and values of the dictionary, in the order the interpreter evaluates them.
\<close>

definition session_run :: libmethod where
  "session_run obj vs w =
     (case (obj, vs) of
        (VSession (Session cl st), fetch # fd) \<Rightarrow>
          (if cl then Inl RuntimeError
           else
             (case parse_feed fd of
                None \<Rightarrow> Inl TypeError
              | Some f \<Rightarrow>
                  if \<not> list_all feed_accepted f then Inl ValueError
                  else
                    (case run_fetches st f fetch of
                       Inl e \<Rightarrow> Inl e
                     | Inr (v, st1) \<Rightarrow> Inr (v, VSession (Session False st1), w))))
      | _ \<Rightarrow> Inl TypeError)"

definition close_session :: "pyval \<Rightarrow> world \<Rightarrow> pyval \<times> world" where
  "close_session obj w =
     (case obj of
        VSession (Session cl st) \<Rightarrow>
          (VSession (Session True st),
           (if cl then w else w\<lparr>tf_open_sessions := tf_open_sessions w - 1\<rparr>))
      | _ \<Rightarrow> (obj, w))"

definition session_close :: libmethod where
  "session_close obj vs w =
     (case vs of
        [] \<Rightarrow> (case close_session obj w of (obj1, w1) \<Rightarrow> Inr (VNone, obj1, w1))
      | _ \<Rightarrow> Inl TypeError)"

text \<open>
  \<^verbatim>\<open>
  with tf.Session() as sess:
      body
  \<close>
  The session is closed when the block is left, also when the body raises.
\<close>

definition with_session :: "string \<Rightarrow> stmt \<Rightarrow> stmt" where
  "with_session n body w =
     (case assign n (call ''tf'' ''Session'' tf_Session []) w of
        (w1, Some e) \<Rightarrow> (w1, Some e)
      | (w1, None) \<Rightarrow>
          (case body w1 of
             (w2, r) \<Rightarrow>
               (case globals w2 n of
                  None \<Rightarrow> (w2\<lparr>tf_open_sessions := tf_open_sessions w2 - 1\<rparr>, r)
                | Some obj \<Rightarrow>
                    (case close_session obj w2 of (obj1, w3) \<Rightarrow> (bind_name n obj1 w3, r)))))"

section \<open>Other library calls of the notebook\<close>

text \<open>
  Calls whose result the notebook only passes on (building, training and scoring a
  Keras model, loading the dataset) are opaque: their result is what the environment
  gives for the call and its arguments.
\<close>

definition opaque :: "string \<Rightarrow> libfun" where
  "opaque name vs w = Inr (env_opaque w name vs, w)"

definition opaque_method :: "string \<Rightarrow> libmethod" where
  "opaque_method name obj vs w =
     Inr (env_opaque w name (obj # vs), env_opaque w (name @ '' (self)'') (obj # vs), w)"

definition any_object :: "pyval \<Rightarrow> bool" where
  "any_object v = True"

definition py_print :: libfun where
  "py_print vs w = Inr (VNone, w\<lparr>out := out w @ [Printed vs]\<rparr>)"

definition mat_size :: "'a mat \<Rightarrow> nat" where
  "mat_size a = nrows a * ncols a"

definition plt_scatter :: libfun where
  "plt_scatter vs w =
     (case vs of
        [VMat a, VMat b] \<Rightarrow>
          (if mat_size a = mat_size b
           then Inr (VObject ''PathCollection'' [], w\<lparr>out := out w @ [Scatter a b]\<rparr>)
           else Inl ValueError)
      | _ \<Rightarrow> Inl TypeError)"

definition plt_figure :: libfun where
  "plt_figure vs w = Inr (VObject ''Figure'' [], w\<lparr>out := out w @ [Figure]\<rparr>)"

definition plt_plot :: libfun where
  "plt_plot vs w =
     (case vs of
        [VList a, VList b] \<Rightarrow>
          (if length a = length b
           then Inr (VList [VObject ''Line2D'' []], w\<lparr>out := out w @ [Plot a b]\<rparr>)
           else Inl ValueError)
      | _ \<Rightarrow> Inl TypeError)"

definition plt_imshow :: libfun where
  "plt_imshow vs w =
     (case vs of
        [VNd a] \<Rightarrow>
          (if length (nd_shape a) = 2
           then Inr (VObject ''AxesImage'' [], w\<lparr>out := out w @ [Imshow a]\<rparr>)
           else Inl TypeError)
      | _ \<Rightarrow> Inl TypeError)"

definition plt_colorbar :: libfun where
  "plt_colorbar vs w = Inr (VObject ''Colorbar'' [], w\<lparr>out := out w @ [Colorbar]\<rparr>)"

text \<open>\<open>keras.backend.clear_session()\<close> also resets the default graph.\<close>

definition keras_clear_session :: libfun where
  "keras_clear_session vs w = Inr (VNone, w\<lparr>tf_variables := [], tf_placeholders := 0\<rparr>)"

subsection \<open>Arrays\<close>

text \<open>\<open>a / s\<close> with a scalar \<open>s\<close> other than 0.\<close>

definition nd_divide :: "real \<Rightarrow> libfun" where
  "nd_divide s vs w =
     (case vs of
        [VNd a] \<Rightarrow> Inr (VNd (np_true_divide a s), w)
      | [VMat a] \<Rightarrow> Inr (VMat (map_mat (\<lambda>v. v / s) a), w)
      | _ \<Rightarrow> Inl TypeError)"

text \<open>\<open>a.shape\<close> and \<open>a.shape[i]\<close>\<close>

definition nd_shape_of :: "pyval list \<Rightarrow> py_error + pyval" where
  "nd_shape_of vs =
     (case vs of
        [VNd a] \<Rightarrow> Inr (VTuple (map (\<lambda>d. VInt (int d)) (nd_shape a)))
      | [VMat a] \<Rightarrow> Inr (VTuple [VInt (int (nrows a)), VInt (int (ncols a))])
      | _ \<Rightarrow> Inl AttributeError)"

definition nd_shape_at :: "int \<Rightarrow> pyval list \<Rightarrow> py_error + pyval" where
  "nd_shape_at i vs =
     (case vs of
        [VNd a] \<Rightarrow> (case shape_at a i of Inl e \<Rightarrow> Inl e | Inr d \<Rightarrow> Inr (VInt (int d)))
      | _ \<Rightarrow> Inl AttributeError)"

text \<open>\<open>a[i]\<close>\<close>

definition nd_getitem :: libfun where
  "nd_getitem vs w =
     (case vs of
        [VNd a, VInt i] \<Rightarrow> (case nd_index a i of Inl e \<Rightarrow> Inl e | Inr b \<Rightarrow> Inr (VNd b, w))
      | _ \<Rightarrow> Inl TypeError)"

text \<open>\<open>a.reshape((d0, d1, d2))\<close>\<close>

definition nd_reshape :: libfun where
  "nd_reshape vs w =
     (case vs of
        [VNd a, VInt d0, VInt d1, VInt d2] \<Rightarrow>
          (case np_reshape a [d0, d1, d2] of Inl e \<Rightarrow> Inl e | Inr b \<Rightarrow> Inr (VNd b, w))
      | _ \<Rightarrow> Inl TypeError)"

subsection \<open>Lists and integers of the interpreter\<close>

definition list_append :: "pyval \<Rightarrow> pyval list \<Rightarrow> py_error + pyval" where
  "list_append obj vs =
     (case (obj, vs) of (VList xs, [v]) \<Rightarrow> Inr (VList (xs @ [v])) | _ \<Rightarrow> Inl AttributeError)"

text \<open>\<open>obj.append(v)\<close> for the list in the variable \<open>n\<close>.\<close>

definition append_to :: "string \<Rightarrow> pyval nb \<Rightarrow> stmt" where
  "append_to n e w =
     (case globals w n of
        None \<Rightarrow> (w, Some NameError)
      | Some obj \<Rightarrow>
          (case e w of
             (Inl x, w1) \<Rightarrow> (w1, Some x)
           | (Inr v, w1) \<Rightarrow>
               (case list_append obj [v] of
                  Inl x \<Rightarrow> (w1, Some x)
                | Inr obj1 \<Rightarrow> (bind_name n obj1 w1, None))))"

definition py_mod :: "pyval list \<Rightarrow> py_error + pyval" where
  "py_mod vs =
     (case vs of
        [VInt a, VInt b] \<Rightarrow> (if b = 0 then Inl ValueError else Inr (VInt (a mod b)))
      | _ \<Rightarrow> Inl TypeError)"

definition py_eq :: "pyval list \<Rightarrow> py_error + pyval" where
  "py_eq vs = (case vs of [a, b] \<Rightarrow> Inr (VBool (a = b)) | _ \<Rightarrow> Inl TypeError)"

subsection \<open>The Keras layers of the small network\<close>

text \<open>\<open>Dense(u, input_dim=d, activation=a, use_bias=False)\<close> and \<open>Dense(u, activation=a, use_bias=False)\<close>\<close>

definition keras_Dense :: "activation \<Rightarrow> libfun" where
  "keras_Dense a vs w =
     (case vs of
        [VInt u, VInt d] \<Rightarrow>
          (if u \<le> 0 \<or> d < 0 then Inl ValueError
           else Inr (VLayer (Dense (nat u) a (Some (nat d)) None), w))
      | [VInt u] \<Rightarrow>
          (if u \<le> 0 then Inl ValueError else Inr (VLayer (Dense (nat u) a None None), w))
      | _ \<Rightarrow> Inl TypeError)"

definition keras_Sequential :: libfun where
  "keras_Sequential vs w = (case vs of [] \<Rightarrow> Inr (VModel [], w) | _ \<Rightarrow> Inl TypeError)"

definition is_model :: "pyval \<Rightarrow> bool" where
  "is_model v = (case v of VModel _ \<Rightarrow> True | _ \<Rightarrow> False)"

text \<open>
  \<open>model.add(layer)\<close> builds the layer when its input width is known: the kernel gets
  the shape (input width, units) and random values.
\<close>

definition build_layer :: "(nat \<Rightarrow> nat \<Rightarrow> real mat) \<Rightarrow> dense list \<Rightarrow> dense \<Rightarrow> dense" where
  "build_layer init ls l =
     (let d = (if ls = [] then input_dim l
               else if kernel (last ls) = None then None else Some (units (last ls)))
      in case d of
           None \<Rightarrow> Dense (units l) (act l) None None
         | Some n \<Rightarrow>
             Dense (units l) (act l) (Some n)
               (Some (Mat n (units l) (rows (init n (units l))))))"

definition model_add :: libmethod where
  "model_add obj vs w =
     (case (obj, vs) of
        (VModel ls, [VLayer l]) \<Rightarrow>
          Inr (VNone, VModel (ls @ [build_layer (env_glorot w) ls l]), w)
      | _ \<Rightarrow> Inl TypeError)"

text \<open>\<open>model.layers[k].set_weights([W])\<close>\<close>

definition model_set_weights :: "nat \<Rightarrow> libmethod" where
  "model_set_weights k obj vs w =
     (case (obj, vs) of
        (VModel ls, [VList [VMat W]]) \<Rightarrow>
          (if k \<ge> length ls then Inl IndexError
           else
             (case (input_dim (ls ! k), kernel (ls ! k)) of
                (Some d, Some K) \<Rightarrow>
                  (if shape W = (d, units (ls ! k))
                   then Inr (VNone,
                             VModel (ls[k := Dense (units (ls ! k)) (act (ls ! k)) (Some d) (Some W)]),
                             w)
                   else Inl ValueError)
              | _ \<Rightarrow> Inl ValueError))
      | _ \<Rightarrow> Inl ValueError)"

definition model_summary :: libmethod where
  "model_summary obj vs w = Inr (VNone, obj, w\<lparr>out := out w @ [Summary obj]\<rparr>)"

text \<open>\<open>model.predict(X)\<close> for a model of dense layers without bias.\<close>

definition apply_activation :: "activation \<Rightarrow> real mat \<Rightarrow> real mat" where
  "apply_activation a z = (case a of Linear \<Rightarrow> z | ReLU \<Rightarrow> tf_nn_relu z)"

fun predict_layers :: "dense list \<Rightarrow> real mat \<Rightarrow> py_error + real mat" where
  "predict_layers [] x = Inr x"
| "predict_layers (l # ls) x =
     (case (input_dim l, kernel l) of
        (Some d, Some K) \<Rightarrow>
          (if ncols x = d then predict_layers ls (apply_activation (act l) (matrix_product x K))
           else Inl ValueError)
      | _ \<Rightarrow> Inl ValueError)"

definition model_predict :: "pyval \<Rightarrow> real mat \<Rightarrow> py_error + real mat" where
  "model_predict m x = (case m of VModel ls \<Rightarrow> predict_layers ls x | _ \<Rightarrow> Inl AttributeError)"

section \<open>The cells\<close>

text \<open>
  A cell starts with an empty log of library calls and an empty output area; \<open>fs\<close>
  says which of its library calls fail for a reason outside the notebook.
\<close>

definition run_cell :: "stmt \<Rightarrow> (nat \<Rightarrow> py_error option) \<Rightarrow> world \<Rightarrow> world \<times> py_error option" where
  "run_cell c fs w = c (w\<lparr>out := [], calls := [], faults := fs\<rparr>)"

subsection \<open>Multilayer perceptron in Tensorflow\<close>

text \<open>
  \<^verbatim>\<open>
  tf.reset_default_graph()
  x = tf.placeholder(tf.float32, (batch_size, n_x))
  W_h = tf.get_variable('W_h', shape=(n_x, n_h), initializer=tf.constant_initializer(W_h_np))
  W_y = tf.get_variable('W_y', shape=(n_h, n_y), initializer=tf.constant_initializer(W_y_np))
  h = tf.nn.relu(tf.matmul(x, W_h))
  y = tf.matmul(h, W_y)
  print(y)
  sess = tf.Session()
  sess.run(tf.global_variables_initializer())
  y_val = sess.run(y, feed_dict={x: x_np})
  sess.close()
  print(y_val)
  plt.scatter(y_val, y_np)
  \<close>
\<close>

definition build_graph :: "stmt list" where
  "build_graph =
     [assign ''x'' (call ''tf'' ''placeholder'' tf_placeholder [var ''batch_size'', var ''n_x'']),
      assign ''W_h''
        (call ''tf'' ''get_variable'' (tf_get_variable ''W_h'')
           [var ''n_x'', var ''n_h'',
            call ''tf'' ''constant_initializer'' tf_constant_initializer [var ''W_h_np'']]),
      assign ''W_y''
        (call ''tf'' ''get_variable'' (tf_get_variable ''W_y'')
           [var ''n_h'', var ''n_y'',
            call ''tf'' ''constant_initializer'' tf_constant_initializer [var ''W_y_np'']]),
      assign ''h'' (call ''tf'' ''nn.relu'' tf_relu [call ''tf'' ''matmul'' tf_matmul [var ''x'', var ''W_h'']]),
      assign ''y'' (call ''tf'' ''matmul'' tf_matmul [var ''h'', var ''W_y'']),
      expr (op ''print'' py_print [var ''y''])]"

definition run_graph :: "stmt list" where
  "run_graph =
     [assign ''sess'' (call ''tf'' ''Session'' tf_Session []),
      expr (call_method ''sess'' ''run'' is_session session_run
              [call ''tf'' ''global_variables_initializer'' tf_global_variables_initializer []]),
      assign ''y_val'' (call_method ''sess'' ''run'' is_session session_run [var ''y'', var ''x'', var ''x_np'']),
      expr (call_method ''sess'' ''close'' is_session session_close []),
      expr (op ''print'' py_print [var ''y_val''])]"

definition tensorflow_cell :: stmt where
  "tensorflow_cell =
     seq ([expr (call ''tf'' ''reset_default_graph'' tf_reset_default_graph [])]
          @ build_graph @ run_graph
          @ [display (call ''plt'' ''scatter'' plt_scatter [var ''y_val'', var ''y_np''])])"

subsection \<open>Multilayer perceptron in Keras\<close>

text \<open>
  \<^verbatim>\<open>
  import keras
  from keras.layers import Dense
  from keras.models import Sequential
  keras.backend.clear_session()
  model = Sequential()
  model.add(Dense(n_h, input_dim=n_x, activation='relu', use_bias=False))
  model.add(Dense(n_y, activation=None, use_bias=False))
  model.layers[0].set_weights([W_h_np])
  model.layers[1].set_weights([W_y_np])
  model.summary()
  \<close>
\<close>

definition keras_cell :: stmt where
  "keras_cell =
     seq [import_name ''keras'' ''keras'',
          import_name ''Dense'' ''keras.layers.Dense'',
          import_name ''Sequential'' ''keras.models.Sequential'',
          expr (call ''keras'' ''backend.clear_session'' keras_clear_session []),
          assign ''model'' (callv ''Sequential'' keras_Sequential []),
          expr (call_method ''model'' ''add'' is_model model_add
                  [callv ''Dense'' (keras_Dense ReLU) [var ''n_h'', var ''n_x'']]),
          expr (call_method ''model'' ''add'' is_model model_add
                  [callv ''Dense'' (keras_Dense Linear) [var ''n_y'']]),
          expr (call_method ''model'' ''layers[0].set_weights'' is_model (model_set_weights 0)
                  [list_display [var ''W_h_np'']]),
          expr (call_method ''model'' ''layers[1].set_weights'' is_model (model_set_weights 1)
                  [list_display [var ''W_y_np'']]),
          expr (call_method ''model'' ''summary'' is_model model_summary [])]"

subsection \<open>Loading the dataset\<close>

text \<open>
  \<^verbatim>\<open>
  from keras.datasets import mnist
  (x_train, y_train),(x_test, y_test) = mnist.load_data()
  x_train, x_test = x_train / 255.0, x_test / 255.0
  print(x_train.shape)
  for i in range(3):
      plt.figure(figsize = (2,2))
      plt.imshow(x_train[i])
      plt.colorbar()
  \<close>
\<close>

definition load_and_normalize :: "stmt list" where
  "load_and_normalize =
     [import_name ''mnist'' ''keras.datasets.mnist'',
      unpack (TT [TT [T ''x_train'', T ''y_train''], TT [T ''x_test'', T ''y_test'']])
        (call ''mnist'' ''load_data'' (opaque ''mnist.load_data'') []),
      unpack (TT [T ''x_train'', T ''x_test''])
        (tuple_display
           [op ''x_train / 255.0'' (nd_divide 255) [var ''x_train''],
            op ''x_test / 255.0'' (nd_divide 255) [var ''x_test'']])]"

definition mnist_cell :: stmt where
  "mnist_cell =
     seq (load_and_normalize @
       [expr (op ''print'' py_print [pure nd_shape_of [var ''x_train'']]),
        for_range ''i'' 3
          (seq [expr (call ''plt'' ''figure'' plt_figure []),
                expr (call ''plt'' ''imshow'' plt_imshow
                        [op ''x_train[i]'' nd_getitem [var ''x_train'', var ''i'']]),
                expr (call ''plt'' ''colorbar'' plt_colorbar [])])])"

subsection \<open>Training the network with Tensorflow\<close>

text \<open>
  \<^verbatim>\<open>
  y_target = tf.placeholder(tf.float32, (None, n_y))
  loss = tf.reduce_mean((y_target - y)**2)
  with tf.Session() as sess:
      sess.run(tf.global_variables_initializer())
      loss_val = sess.run(loss, feed_dict={x: x_np, y_target: y_target_np})
  print(loss_np)
  print(loss_val)
  opt = tf.train.GradientDescentOptimizer(learning_rate=0.01)
  train_op = opt.minimize(loss)
  \<close>
\<close>

definition loss_session :: stmt where
  "loss_session =
     with_session ''sess''
       (seq [expr (call_method ''sess'' ''run'' is_session session_run
                     [call ''tf'' ''global_variables_initializer'' tf_global_variables_initializer []]),
             assign ''loss_val''
               (call_method ''sess'' ''run'' is_session session_run
                  [var ''loss'', var ''x'', var ''x_np'', var ''y_target'', var ''y_target_np''])])"

definition define_loss :: "stmt list" where
  "define_loss =
     [assign ''y_target'' (call ''tf'' ''placeholder'' tf_placeholder [const VNone, var ''n_y'']),
      assign ''loss''
        (call ''tf'' ''reduce_mean'' tf_reduce_mean
           [op ''**'' tf_square [op ''-'' tf_subtract [var ''y_target'', var ''y'']]]),
      loss_session,
      expr (op ''print'' py_print [var ''loss_np'']),
      expr (op ''print'' py_print [var ''loss_val'']),
      assign ''opt'' (call ''tf'' ''train.GradientDescentOptimizer'' (tf_GradientDescentOptimizer (1 / 100)) []),
      assign ''train_op'' (call_method ''opt'' ''minimize'' is_optimizer optimizer_minimize [var ''loss''])]"

text \<open>
  \<^verbatim>\<open>
  steps = list()
  losses = list()
  with tf.Session() as sess:
      sess.run(tf.global_variables_initializer())
      for step in range(10):
          _, loss_val = sess.run([train_op, loss],
                                 feed_dict={x: x_np, y_target: y_target_np})
          if step % 1 == 0:
              print(step, loss_val)
              steps.append(step)
              losses.append(loss_val)
  plt.figure()
  plt.plot(steps, losses)
  \<close>
\<close>

definition train_step :: stmt where
  "train_step =
     seq [unpack (TT [T ''_'', T ''loss_val''])
            (call_method ''sess'' ''run'' is_session session_run
               [list_display [var ''train_op'', var ''loss''],
                var ''x'', var ''x_np'', var ''y_target'', var ''y_target_np'']),
          if_true (pure py_eq [pure py_mod [var ''step'', const (VInt 1)], const (VInt 0)])
            (seq [expr (op ''print'' py_print [var ''step'', var ''loss_val'']),
                  append_to ''steps'' (var ''step''),
                  append_to ''losses'' (var ''loss_val'')])]"

definition training_session :: stmt where
  "training_session =
     with_session ''sess''
       (seq [expr (call_method ''sess'' ''run'' is_session session_run
                     [call ''tf'' ''global_variables_initializer'' tf_global_variables_initializer []]),
             for_range ''step'' 10 train_step])"

definition training_loop :: "stmt list" where
  "training_loop =
     [assign ''steps'' (const (VList [])),
      assign ''losses'' (const (VList [])),
      training_session,
      expr (call ''plt'' ''figure'' plt_figure []),
      display (call ''plt'' ''plot'' plt_plot [var ''steps'', var ''losses''])]"

definition training_cell :: stmt where
  "training_cell =
     seq ([expr (call ''tf'' ''reset_default_graph'' tf_reset_default_graph []),
           expr (call ''keras'' ''backend.clear_session'' keras_clear_session [])]
          @ build_graph @ run_graph
          @ [expr (call ''plt'' ''scatter'' plt_scatter [var ''y_val'', var ''y_np''])]
          @ define_loss @ training_loop)"

subsection \<open>Recurrent network\<close>

text \<open>
  \<^verbatim>\<open>
  from keras.layers import Dense, Flatten, Conv2D, Dropout, MaxPooling2D, GRU
  from keras import Input
  x_train_rnn = x_train.reshape((x_train.shape[0], -1, 1))
  x_test_rnn = x_train.reshape((x_test.shape[0], -1, 1))
  x = Input((None, x_train_rnn.shape[-1]))
  layer = GRU(20)
  y = layer(x)
  print(x)
  model = keras.models.Model(inputs=x, outputs=y)
  model.compile(optimizer='adam', loss='sparse_categorical_crossentropy', metrics=['accuracy'])
  model.summary()
  model.fit(x_train_rnn, y_train, epochs=5)
  model.evaluate(x_test_rnn, y_test)
  \<close>
\<close>

definition reshape_for_rnn :: "stmt list" where
  "reshape_for_rnn =
     [assign ''x_train_rnn''
        (op ''x_train.reshape'' nd_reshape
           [var ''x_train'', pure (nd_shape_at 0) [var ''x_train''], const (VInt (-1)), const (VInt 1)]),
      assign ''x_test_rnn''
        (op ''x_train.reshape'' nd_reshape
           [var ''x_train'', pure (nd_shape_at 0) [var ''x_test''], const (VInt (-1)), const (VInt 1)])]"

definition rnn_cell :: stmt where
  "rnn_cell =
     seq ([import_name ''Dense'' ''keras.layers.Dense'',
           import_name ''Flatten'' ''keras.layers.Flatten'',
           import_name ''Conv2D'' ''keras.layers.Conv2D'',
           import_name ''Dropout'' ''keras.layers.Dropout'',
           import_name ''MaxPooling2D'' ''keras.layers.MaxPooling2D'',
           import_name ''GRU'' ''keras.layers.GRU'',
           import_name ''Input'' ''keras.Input'']
          @ reshape_for_rnn @
          [assign ''x'' (callv ''Input'' (opaque ''Input'') [const VNone, pure (nd_shape_at (-1)) [var ''x_train_rnn'']]),
           assign ''layer'' (callv ''GRU'' (opaque ''GRU'') [const (VInt 20)]),
           assign ''y'' (call_method ''layer'' ''__call__'' any_object (opaque_method ''layer.__call__'') [var ''x'']),
           expr (op ''print'' py_print [var ''x'']),
           assign ''model'' (call ''keras'' ''models.Model'' (opaque ''Model'') [var ''x'', var ''y'']),
           expr (call_method ''model'' ''compile'' any_object (opaque_method ''model.compile'') []),
           expr (call_method ''model'' ''summary'' any_object model_summary []),
           expr (call_method ''model'' ''fit'' any_object (opaque_method ''model.fit'')
                   [var ''x_train_rnn'', var ''y_train'']),
           display (call_method ''model'' ''evaluate'' any_object (opaque_method ''model.evaluate'')
                      [var ''x_test_rnn'', var ''y_test''])])"


section \<open>A small session\<close>

text \<open>
  A session in which the first cell has imported the libraries and nothing else is
  bound; the dataset of this environment has one training image and one test image of
  one row and two pixels.
\<close>

definition example_world :: world where
  "example_world =
     \<lparr>globals = [''np'' \<mapsto> VModule ''numpy'', ''tf'' \<mapsto> VModule ''tensorflow'',
                 ''plt'' \<mapsto> VModule ''matplotlib.pyplot''],
      tf_variables = [], tf_placeholders = 0, tf_open_sessions = 0,
      out = [], calls = [], faults = (\<lambda>k. None),
      env_opaque = (\<lambda>name vs.
         if name = ''mnist.load_data''
         then VTuple [VTuple [VNd (NDArray [1, 1, 2] [0, 255]), VNd (NDArray [1] [7])],
                      VTuple [VNd (NDArray [1, 1, 2] [51, 102]), VNd (NDArray [1] [3])]]
         else VObject name vs),
      env_glorot = (\<lambda>r c. Mat r c (replicate r (replicate c 0)))\<rparr>"

text \<open>
  The same session after a NumPy cell with one input row, two inputs, two hidden units
  and one output: \<open>x_np = [[1, 2]]\<close>, \<open>W_h_np = [[1, -1], [0, 0]]\<close>,
  \<open>W_y_np = [[2], [3]]\<close>, hence \<open>h_np = [[1, 0]]\<close> and \<open>y_np = [[2]]\<close>; the target is
  \<open>[[1]]\<close> and the loss 1.
\<close>

definition example_mlp_world :: world where
  "example_mlp_world =
     example_world\<lparr>globals :=
       (globals example_world)
         (''batch_size'' \<mapsto> VInt 1, ''n_x'' \<mapsto> VInt 2, ''n_h'' \<mapsto> VInt 2, ''n_y'' \<mapsto> VInt 1,
          ''x_np'' \<mapsto> VMat (Mat 1 2 [[1, 2]]),
          ''W_h_np'' \<mapsto> VMat (Mat 2 2 [[1, -1], [0, 0]]),
          ''W_y_np'' \<mapsto> VMat (Mat 2 1 [[2], [3]]),
          ''h_np'' \<mapsto> VMat (Mat 1 2 [[1, 0]]),
          ''y_np'' \<mapsto> VMat (Mat 1 1 [[2]]),
          ''y_target_np'' \<mapsto> VMat (Mat 1 1 [[1]]),
          ''loss_np'' \<mapsto> VFloat (Some 1))\<rparr>"

section \<open>Two runs of the same code\<close>

text \<open>
  Two sessions are related when their variables are related name by name (\<open>rel\<close>), the
  output, the log of calls, the failures to come and the environment are the same, and,
  if \<open>tfeq\<close> holds, the default graphs are the same. The number of open sessions is
  left out: it is not visible to the code.
\<close>

definition related :: "(string \<Rightarrow> pyval option \<Rightarrow> pyval option \<Rightarrow> bool) \<Rightarrow> bool \<Rightarrow> world \<Rightarrow> world \<Rightarrow> bool" where
  "related rel tfeq w1 w2 \<longleftrightarrow>
     (\<forall>n. rel n (globals w1 n) (globals w2 n))
     \<and> out w1 = out w2 \<and> calls w1 = calls w2 \<and> faults w1 = faults w2
     \<and> env_opaque w1 = env_opaque w2 \<and> env_glorot w1 = env_glorot w2
     \<and> (tfeq \<longrightarrow> tf_variables w1 = tf_variables w2 \<and> tf_placeholders w1 = tf_placeholders w2)"

text \<open>
  An expression respects a relation when, from related sessions, it raises the same
  error in both, leaving them related by \<open>R\<close>, or gives the same value in both,
  leaving them related by \<open>R'\<close>; likewise for a statement.
\<close>

definition eresp :: "(world \<Rightarrow> world \<Rightarrow> bool) \<Rightarrow> (world \<Rightarrow> world \<Rightarrow> bool) \<Rightarrow> 'a nb \<Rightarrow> bool" where
  "eresp R R' e \<longleftrightarrow>
     (\<forall>w1 w2. R w1 w2 \<longrightarrow>
        fst (e w1) = fst (e w2)
        \<and> (if isl (fst (e w1)) then R (snd (e w1)) (snd (e w2)) else R' (snd (e w1)) (snd (e w2))))"

definition sresp :: "(world \<Rightarrow> world \<Rightarrow> bool) \<Rightarrow> (world \<Rightarrow> world \<Rightarrow> bool) \<Rightarrow> stmt \<Rightarrow> bool" where
  "sresp R R' s \<longleftrightarrow>
     (\<forall>w1 w2. R w1 w2 \<longrightarrow>
        snd (s w1) = snd (s w2)
        \<and> (if snd (s w1) = None then R' (fst (s w1)) (fst (s w2)) else R (fst (s w1)) (fst (s w2))))"

text \<open>
  A library function respects a relation when, called with the same arguments in related
  sessions, it raises the same error in both or returns the same value in both and leaves
  sessions related by \<open>R'\<close>.
\<close>

definition lresp :: "(world \<Rightarrow> world \<Rightarrow> bool) \<Rightarrow> (world \<Rightarrow> world \<Rightarrow> bool) \<Rightarrow> libfun \<Rightarrow> bool" where
  "lresp R R' f \<longleftrightarrow>
     (\<forall>vs w1 w2. R w1 w2 \<longrightarrow>
        (case f vs w1 of
           Inl a \<Rightarrow> f vs w2 = Inl a
         | Inr (a, u1) \<Rightarrow>
             (case f vs w2 of
                Inl b \<Rightarrow> False
              | Inr (b, u2) \<Rightarrow> a = b \<and> R' u1 u2)))"

text \<open>
  Sessions that differ at most in the entries of \<open>x_test\<close>: both bind it to an array,
  the two arrays have the same length, and every other name has the same value.
\<close>

definition same_but_x_test :: "string \<Rightarrow> pyval option \<Rightarrow> pyval option \<Rightarrow> bool" where
  "same_but_x_test n a b \<longleftrightarrow>
     (if n = ''x_test''
      then (\<exists>s t. a = Some (VNd s) \<and> b = Some (VNd t) \<and> shape_at s 0 = shape_at t 0)
      else a = b)"

text \<open>
  A session after the dataset cell and the Keras cell, with two training images and one
  test image of one row and two pixels.
\<close>

definition example_mnist_world :: world where
  "example_mnist_world =
     example_world\<lparr>globals :=
       (globals example_world)
         (''keras'' \<mapsto> VModule ''keras'',
          ''x_train'' \<mapsto> VNd (NDArray [2, 1, 2] [0, 1, 1 / 5, 2 / 5]),
          ''y_train'' \<mapsto> VNd (NDArray [2] [7, 3]),
          ''x_test'' \<mapsto> VNd (NDArray [1, 1, 2] [3 / 5, 4 / 5]),
          ''y_test'' \<mapsto> VNd (NDArray [1] [9]))\<rparr>"




text \<open>The library call number \<open>k\<close> of a cell fails with \<open>e\<close>, and no other.\<close>

definition fails_at :: "nat \<Rightarrow> py_error \<Rightarrow> nat \<Rightarrow> py_error option" where
  "fails_at k e i = (if i = k then Some e else None)"

section \<open>Open sessions\<close>

text \<open>
  An expression keeps the sessions when evaluating it, to a value or to an error,
  changes neither the number of open sessions nor any variable; a library function or
  method is quiet when a call that returns does neither.
\<close>

definition keeps :: "'a nb \<Rightarrow> bool" where
  "keeps e \<longleftrightarrow>
     (\<forall>w. tf_open_sessions (snd (e w)) = tf_open_sessions w \<and> globals (snd (e w)) = globals w)"

definition quiet :: "libfun \<Rightarrow> bool" where
  "quiet f \<longleftrightarrow>
     (\<forall>vs w v u. f vs w = Inr (v, u) \<longrightarrow>
        tf_open_sessions u = tf_open_sessions w \<and> globals u = globals w)"

definition quiet_method :: "libmethod \<Rightarrow> bool" where
  "quiet_method f \<longleftrightarrow>
     (\<forall>obj vs w v obj' u. f obj vs w = Inr (v, obj', u) \<longrightarrow>
        tf_open_sessions u = tf_open_sessions w \<and> globals u = globals w)"

text \<open>A property of the number of open sessions and of the variables.\<close>

type_synonym sessions_property = "nat \<Rightarrow> (string \<Rightarrow> pyval option) \<Rightarrow> bool"

definition holds :: "sessions_property \<Rightarrow> world \<Rightarrow> bool" where
  "holds I w = I (tf_open_sessions w) (globals w)"

definition all_closed :: "nat \<Rightarrow> sessions_property" where
  "all_closed k j g \<longleftrightarrow> j = k"

definition one_open :: "nat \<Rightarrow> string \<Rightarrow> sessions_property" where
  "one_open k n j g \<longleftrightarrow> j = Suc k \<and> (\<exists>st. g n = Some (VSession (Session False st)))"

definition stable :: "sessions_property \<Rightarrow> string \<Rightarrow> bool" where
  "stable I n \<longleftrightarrow> (\<forall>j g v. I j g \<longrightarrow> I j (g(n \<mapsto> v)))"

fun target_names :: "target \<Rightarrow> string list" where
  "target_names (T n) = [n]"
| "target_names (TT ts) = concat (map target_names ts)"

text \<open>
  A statement preserves a property when it holds after the statement, completed or
  not, if it held before; \<open>completes P s Q\<close> when \<open>Q\<close> holds after \<open>s\<close> has run from \<open>P\<close>
  without raising.
\<close>

definition preserves :: "(world \<Rightarrow> bool) \<Rightarrow> stmt \<Rightarrow> bool" where
  "preserves P s \<longleftrightarrow> (\<forall>w. P w \<longrightarrow> P (fst (s w)))"

definition epreserves :: "(world \<Rightarrow> bool) \<Rightarrow> 'a nb \<Rightarrow> bool" where
  "epreserves P e \<longleftrightarrow> (\<forall>w. P w \<longrightarrow> P (snd (e w)))"

definition completes :: "(world \<Rightarrow> bool) \<Rightarrow> stmt \<Rightarrow> (world \<Rightarrow> bool) \<Rightarrow> bool" where
  "completes P s Q \<longleftrightarrow> (\<forall>w. P w \<longrightarrow> snd (s w) = None \<longrightarrow> Q (fst (s w)))"

section \<open>The graph of the training cell\<close>





text \<open>
  The entry \<open>(i, j)\<close> of a matrix replaced by \<open>t\<close>, and the loss of the network with
  weights \<open>A\<close> and \<open>B\<close> as a real number.
\<close>

definition set_entry :: "real mat \<Rightarrow> nat \<Rightarrow> nat \<Rightarrow> real \<Rightarrow> real mat" where
  "set_entry W i j t = Mat (nrows W) (ncols W) ((rows W)[i := (rows W ! i)[j := t]])"


section \<open>Basic facts about arrays\<close>

lemma broadcast_dim_same [simp]: "broadcast_dim n n = Inr n"
  by (simp add: broadcast_dim_def)

lemma broadcast_to_same [simp]: "broadcast_to (nrows a) (ncols a) a = rows a"
  by (simp add: broadcast_to_def)

lemma elementwise_same_shape:
  assumes "nrows a = nrows b" and "ncols a = ncols b"
  shows "elementwise f a b = Inr (Mat (nrows a) (ncols a) (map2 (map2 f) (rows a) (rows b)))"
proof -
  have "broadcast_to (nrows b) (ncols b) a = rows a"
    using assms broadcast_to_same [of a] by simp
  then show ?thesis
    using assms by (simp add: elementwise_def)
qed

lemma map2_same: "map2 f xs (map g xs) = map (\<lambda>x. f x (g x)) xs"
  by (induction xs) simp_all

lemma wf_map_mat [simp]: "wf_mat (map_mat f a) \<longleftrightarrow> wf_mat a"
  by (simp add: wf_mat_def map_mat_def list_all_iff)

lemma sel_map_mat [simp]:
  "nrows (map_mat f a) = nrows a" "ncols (map_mat f a) = ncols a"
  "rows (map_mat f a) = map (map f) (rows a)"
  by (simp_all add: map_mat_def)

lemma shape_map_mat [simp]: "shape (map_mat f a) = shape a"
  by (simp add: shape_def)

lemma sel_matrix_product [simp]:
  "nrows (matrix_product a b) = nrows a" "ncols (matrix_product a b) = ncols b"
  by (simp_all add: matrix_product_def)

lemma shape_matrix_product [simp]: "shape (matrix_product a b) = (nrows a, ncols b)"
  by (simp add: shape_def)

lemma length_dot_row [simp]: "length (dot_row r b) = ncols b"
  by (simp add: dot_row_def)

lemma wf_matrix_product: "wf_mat a \<Longrightarrow> wf_mat (matrix_product a b)"
  by (simp add: wf_mat_def matrix_product_def list_all_iff)

lemma map_map2: "map f (map2 g a b) = map2 (\<lambda>v w. f (g v w)) a b"
  by (simp add: case_prod_beta comp_def)

lemma relu_times_indicator: "(v::real) * of_bool (0 < v) = max v 0"
  by (simp add: max_def)

lemma relu_eq: "relu x = Inr (map_mat (\<lambda>v. max v 0) x)"
proof -
  have "map2 (map2 (\<lambda>v c. v * of_bool c)) (rows x) (map (map (\<lambda>v. 0 < v)) (rows x))
        = map (map (\<lambda>v. max v 0)) (rows x)"
    by (simp add: map2_same relu_times_indicator)
  then show ?thesis
    by (simp add: relu_def np_multiply_bool_def np_greater_def map_mat_def
        elementwise_same_shape)
qed

section \<open>The activation function\<close>

text \<open>
  Claim C2. The hand-written \<open>relu(x) = x * (x > 0.)\<close> never raises; its result has
  the shape of \<open>x\<close> (and is a well-formed array when \<open>x\<close> is), every entry of the
  result is the maximum of the corresponding entry of \<open>x\<close> and 0, and the result is
  the one of the library's \<open>tf.nn.relu\<close>.
\<close>

theorem relu_is_elementwise_max:
  "\<exists>r. relu x = Inr r
     \<and> shape r = shape x
     \<and> (wf_mat x \<longrightarrow> wf_mat r)
     \<and> rows r = map (map (\<lambda>v. max v 0)) (rows x)
     \<and> (\<forall>i < nrows x. \<forall>j < ncols x. wf_mat x \<longrightarrow> entry r i j = max (entry x i j) 0)
     \<and> r = tf_nn_relu x"
proof -
  let ?r = "map_mat (\<lambda>v. max v 0) x"
  have "entry ?r i j = max (entry x i j) 0" if "i < nrows x" "j < ncols x" "wf_mat x" for i j
  proof -
    from that have "i < length (rows x)" and "j < length (rows x ! i)"
      by (simp_all add: wf_mat_def list_all_length)
    then show ?thesis by (simp add: entry_def map_mat_def)
  qed
  then show ?thesis
    by (simp add: relu_eq tf_nn_relu_def shape_def)
qed

theorem relu_is_elementwise_max_witness:
  "wf_mat (Mat 2 2 [[1, -2], [0, 3 / 2 :: real]])
   \<and> relu (Mat 2 2 [[1, -2], [0, 3 / 2]]) = Inr (Mat 2 2 [[1, 0], [0, 3 / 2]])
   \<and> tf_nn_relu (Mat 2 2 [[1, -2], [0, 3 / 2]]) = Mat 2 2 [[1, 0], [0, 3 / 2]]
   \<and> entry (Mat 2 2 [[1, 0], [0, 3 / 2 :: real]]) 0 1
       = max (entry (Mat 2 2 [[1, -2], [0, 3 / 2 :: real]]) 0 1) 0"
  using relu_is_elementwise_max [of "Mat 2 2 [[1, -2], [0, 3 / 2]]"]
  by (auto simp add: wf_mat_def map_mat_def tf_nn_relu_def entry_def)


section \<open>Shapes in the NumPy network\<close>

lemma forward_shapes:
  assumes x: "wf_mat x" "shape x = (b, nx)"
    and Wh: "shape W_h = (nx, nh)"
    and Wy: "shape W_y = (nh, ny)"
  shows "h_np x W_h = Inr (tf_nn_relu (matrix_product x W_h))"
    and "y_np x W_h W_y = Inr (matrix_product (tf_nn_relu (matrix_product x W_h)) W_y)"
    and "wf_mat (tf_nn_relu (matrix_product x W_h))"
    and "shape (tf_nn_relu (matrix_product x W_h)) = (b, nh)"
    and "wf_mat (matrix_product (tf_nn_relu (matrix_product x W_h)) W_y)"
    and "shape (matrix_product (tf_nn_relu (matrix_product x W_h)) W_y) = (b, ny)"
proof -
  show h: "h_np x W_h = Inr (tf_nn_relu (matrix_product x W_h))"
    using assms by (simp add: h_np_def np_dot_def shape_def relu_eq tf_nn_relu_def)
  have "ncols (tf_nn_relu (matrix_product x W_h)) = nrows W_y"
    using assms by (simp add: tf_nn_relu_def shape_def)
  then show "y_np x W_h W_y = Inr (matrix_product (tf_nn_relu (matrix_product x W_h)) W_y)"
    by (simp add: y_np_def h np_dot_def)
  show wfh: "wf_mat (tf_nn_relu (matrix_product x W_h))"
    using x by (simp add: tf_nn_relu_def wf_matrix_product)
  show "shape (tf_nn_relu (matrix_product x W_h)) = (b, nh)"
    using assms by (simp add: tf_nn_relu_def shape_def)
  show "wf_mat (matrix_product (tf_nn_relu (matrix_product x W_h)) W_y)"
    using wfh by (rule wf_matrix_product)
  show "shape (matrix_product (tf_nn_relu (matrix_product x W_h)) W_y) = (b, ny)"
    using assms by (simp add: tf_nn_relu_def shape_def)
qed

lemma loss_eq:
  assumes "shape t = shape y"
  shows "loss_np t y = Inr (np_mean (Mat (nrows t) (ncols t)
           (map2 (map2 (\<lambda>v w. (v - w) ^ 2)) (rows t) (rows y))))"
proof -
  have sub: "np_subtract t y
      = Inr (Mat (nrows t) (ncols t) (map2 (map2 (\<lambda>v w. v - w)) (rows t) (rows y)))"
    using assms unfolding np_subtract_def shape_def
    by (intro elementwise_same_shape) simp_all
  have sq: "map (map (\<lambda>v. v ^ 2)) (map2 (map2 (\<lambda>v w. v - w)) A B)
        = map2 (map2 (\<lambda>v w. (v - w) ^ 2)) A B" for A B :: "real list list"
    by (simp only: map_map2)
  show ?thesis
    by (simp only: loss_np_def sub sum.case np_square_def map_mat_def mat.sel sq)
qed

lemma loss_defined:
  assumes "shape t = shape y" "0 < nrows y * ncols y"
  shows "\<exists>l. loss_np t y = Inr (Some l)"
  using assms by (simp add: loss_eq np_mean_def shape_def)

text \<open>
  Claim C4. With the hyperparameters of the notebook (\<open>batch_size = 5\<close>, \<open>n_x = 10\<close>,
  \<open>n_h = 100\<close>, \<open>n_y = 3\<close>) and arrays of the shapes the cell creates, both matrix
  products are well-formed (\<open>np.dot\<close> does not raise), the hidden activation has
  shape \<open>(batch_size, n_h)\<close>, the output has shape \<open>(batch_size, n_y)\<close>, and the loss
  is a scalar.
\<close>

theorem mlp_shapes:
  assumes "wf_mat x" "shape x = (batch_size, n_x)"
    and "wf_mat W_h" "shape W_h = (n_x, n_h)"
    and "wf_mat W_y" "shape W_y = (n_h, n_y)"
    and "wf_mat t" "shape t = (batch_size, n_y)"
  shows "\<exists>z h y l.
           np_dot x W_h = Inr z \<and> shape z = (batch_size, n_h)
         \<and> h_np x W_h = Inr h \<and> wf_mat h \<and> shape h = (batch_size, n_h)
         \<and> np_dot h W_y = Inr y \<and> y_np x W_h W_y = Inr y
         \<and> wf_mat y \<and> shape y = (batch_size, n_y)
         \<and> loss_np t y = Inr (Some l)"
proof -
  let ?z = "matrix_product x W_h"
  let ?h = "tf_nn_relu ?z"
  let ?y = "matrix_product ?h W_y"
  note f = forward_shapes [OF assms(1,2,4,6)]
  have z: "np_dot x W_h = Inr ?z" "shape ?z = (batch_size, n_h)"
    using assms by (simp_all add: np_dot_def shape_def)
  have d: "np_dot ?h W_y = Inr ?y"
    using f(4) assms(6) by (simp add: np_dot_def shape_def)
  have "0 < nrows ?y * ncols ?y"
    using f(6) by (simp add: shape_def batch_size_def n_y_def)
  then obtain l where "loss_np t ?y = Inr (Some l)"
    using loss_defined [of t ?y] f(6) assms(8) by auto
  with z d f show ?thesis by blast
qed

theorem mlp_shapes_witness:
  "wf_mat (Mat 5 10 (replicate 5 (replicate 10 (1::real))))
   \<and> shape (Mat 5 10 (replicate 5 (replicate 10 (1::real)))) = (batch_size, n_x)
   \<and> wf_mat (Mat 10 100 (replicate 10 (replicate 100 (1::real))))
   \<and> shape (Mat 10 100 (replicate 10 (replicate 100 (1::real)))) = (n_x, n_h)
   \<and> wf_mat (Mat 100 3 (replicate 100 (replicate 3 (1::real))))
   \<and> shape (Mat 100 3 (replicate 100 (replicate 3 (1::real)))) = (n_h, n_y)
   \<and> wf_mat (Mat 5 3 (replicate 5 (replicate 3 (0::real))))
   \<and> shape (Mat 5 3 (replicate 5 (replicate 3 (0::real)))) = (batch_size, n_y)
   \<and> (\<exists>h y l.
         h_np (Mat 5 10 (replicate 5 (replicate 10 1))) (Mat 10 100 (replicate 10 (replicate 100 1)))
           = Inr h \<and> shape h = (5, 100)
       \<and> y_np (Mat 5 10 (replicate 5 (replicate 10 1))) (Mat 10 100 (replicate 10 (replicate 100 1)))
            (Mat 100 3 (replicate 100 (replicate 3 1))) = Inr y \<and> shape y = (5, 3)
       \<and> loss_np (Mat 5 3 (replicate 5 (replicate 3 0))) y = Inr (Some l))"
proof -
  have h: "wf_mat (Mat 5 10 (replicate 5 (replicate 10 (1::real))))"
    "shape (Mat 5 10 (replicate 5 (replicate 10 (1::real)))) = (batch_size, n_x)"
    "wf_mat (Mat 10 100 (replicate 10 (replicate 100 (1::real))))"
    "shape (Mat 10 100 (replicate 10 (replicate 100 (1::real)))) = (n_x, n_h)"
    "wf_mat (Mat 100 3 (replicate 100 (replicate 3 (1::real))))"
    "shape (Mat 100 3 (replicate 100 (replicate 3 (1::real)))) = (n_h, n_y)"
    "wf_mat (Mat 5 3 (replicate 5 (replicate 3 (0::real))))"
    "shape (Mat 5 3 (replicate 5 (replicate 3 (0::real)))) = (batch_size, n_y)"
    by (simp_all add: wf_mat_def shape_def list_all_iff batch_size_def n_x_def n_h_def n_y_def)
  from mlp_shapes [OF h] obtain z h' y l where
    "h_np (Mat 5 10 (replicate 5 (replicate 10 1))) (Mat 10 100 (replicate 10 (replicate 100 1))) = Inr h'"
    "shape h' = (batch_size, n_h)"
    "y_np (Mat 5 10 (replicate 5 (replicate 10 1))) (Mat 10 100 (replicate 10 (replicate 100 1)))
            (Mat 100 3 (replicate 100 (replicate 3 1))) = Inr y"
    "shape y = (batch_size, n_y)"
    "loss_np (Mat 5 3 (replicate 5 (replicate 3 0))) y = Inr (Some l)"
    by blast
  then have "\<exists>h y l.
         h_np (Mat 5 10 (replicate 5 (replicate 10 1))) (Mat 10 100 (replicate 10 (replicate 100 1)))
           = Inr h \<and> shape h = (5, 100)
       \<and> y_np (Mat 5 10 (replicate 5 (replicate 10 1))) (Mat 10 100 (replicate 10 (replicate 100 1)))
            (Mat 100 3 (replicate 100 (replicate 3 1))) = Inr y \<and> shape y = (5, 3)
       \<and> loss_np (Mat 5 3 (replicate 5 (replicate 3 0))) y = Inr (Some l)"
    unfolding batch_size_def n_h_def n_y_def by blast
  with h show ?thesis by blast
qed

section \<open>The mean squared error\<close>

lemma vec_sq_zero:
  "length a = length b \<Longrightarrow>
   (\<forall>v\<in>set (map2 (\<lambda>v w. (v - w) ^ 2) a b). v = (0::real)) \<longleftrightarrow> a = b"
  by (induction a b rule: list_induct2) auto

lemma mat_sq_zero:
  "list_all2 (\<lambda>r s. length r = length s) A B \<Longrightarrow>
   (\<forall>v\<in>set (concat (map2 (map2 (\<lambda>v w. (v - w) ^ 2)) A B)). v = (0::real)) \<longleftrightarrow> A = B"
proof (induction A B rule: list_all2_induct)
  case Nil
  then show ?case by simp
next
  case (Cons r A s B)
  have "(\<forall>v\<in>set (map2 (\<lambda>v w. (v - w) ^ 2) r s). v = (0::real)) \<longleftrightarrow> r = s"
    using Cons.hyps(1) by (rule vec_sq_zero)
  with Cons.IH show ?case
    by (simp only: zip_Cons_Cons list.map prod.case concat.simps set_append ball_Un list.inject)
qed

lemma sq_nonneg_all:
  "v \<in> set (concat (map2 (map2 (\<lambda>v w. (v - w) ^ 2)) A B)) \<Longrightarrow> (0::real) \<le> v"
  by (auto simp: set_zip)

lemma wf_same_shape_all2:
  "wf_mat a \<Longrightarrow> wf_mat b \<Longrightarrow> shape a = shape b \<Longrightarrow>
   list_all2 (\<lambda>r s. length r = length s) (rows a) (rows b)"
  by (auto simp: wf_mat_def shape_def list_all2_conv_all_nth list_all_length)

text \<open>
  Claim C9, as stated, for every pair of arrays of equal shape: it fails on arrays
  without entries. For the shape \<open>(0, 3)\<close> the prediction equals the target, and the
  loss is \<open>nan\<close>, neither zero nor non-negative.
\<close>

theorem loss_of_empty_arrays_is_nan:
  "wf_mat (Mat 0 3 ([] :: real list list))
   \<and> shape (Mat 0 3 ([] :: real list list)) = shape (Mat 0 3 ([] :: real list list))
   \<and> loss_np (Mat 0 3 []) (Mat 0 3 []) = Inr None
   \<and> loss_np (Mat 0 3 []) (Mat 0 3 []) \<noteq> Inr (Some 0)"
  by (simp add: wf_mat_def loss_eq np_mean_def)

text \<open>
  Claim C9, amended: for a prediction \<open>y\<close> and a target \<open>t\<close> of equal shape with at
  least one entry, the loss \<open>mean((t - y)^2)\<close> is a real number, it is non-negative,
  and it is zero exactly when \<open>y\<close> and \<open>t\<close> are equal.
\<close>

theorem loss_nonneg:
  assumes "wf_mat y" "wf_mat t" "shape t = shape y" "0 < nrows y * ncols y"
  shows "\<exists>l. loss_np t y = Inr (Some l) \<and> 0 \<le> l \<and> (l = 0 \<longleftrightarrow> y = t)"
proof -
  let ?sq = "concat (map2 (map2 (\<lambda>v w. (v - w) ^ 2)) (rows t) (rows y))"
  let ?n = "real (nrows t * ncols t)"
  have n: "0 < ?n" using assms by (simp add: shape_def)
  have l: "loss_np t y = Inr (Some (sum_list ?sq / ?n))"
    using assms n by (simp add: loss_eq np_mean_def shape_def)
  have nn: "0 \<le> sum_list ?sq" by (rule sum_list_nonneg) (rule sq_nonneg_all)
  have "sum_list ?sq = 0 \<longleftrightarrow> (\<forall>v\<in>set ?sq. v = 0)"
    by (rule sum_list_nonneg_eq_0_iff) (use sq_nonneg_all in blast)
  also have "\<dots> \<longleftrightarrow> rows t = rows y"
    using mat_sq_zero [OF wf_same_shape_all2 [OF assms(2,1,3)]] .
  also have "\<dots> \<longleftrightarrow> y = t"
    using assms(3) by (cases y; cases t) (auto simp: shape_def)
  finally have z: "sum_list ?sq = 0 \<longleftrightarrow> y = t" .
  have "0 \<le> sum_list ?sq / ?n" using nn n by (intro divide_nonneg_pos)
  moreover have "sum_list ?sq / ?n = 0 \<longleftrightarrow> y = t"
    using n z by (simp only: divide_eq_0_iff) auto
  ultimately show ?thesis using l by blast
qed

theorem loss_nonneg_witness:
  "wf_mat (Mat 1 2 [[1, 4 :: real]]) \<and> wf_mat (Mat 1 2 [[1, 2 :: real]])
   \<and> shape (Mat 1 2 [[1, 2 :: real]]) = shape (Mat 1 2 [[1, 4 :: real]])
   \<and> 0 < nrows (Mat 1 2 [[1, 4 :: real]]) * ncols (Mat 1 2 [[1, 4 :: real]])
   \<and> loss_np (Mat 1 2 [[1, 2]]) (Mat 1 2 [[1, 4]]) = Inr (Some 2)
   \<and> (0::real) \<le> 2
   \<and> Mat 1 2 [[1, 4 :: real]] \<noteq> Mat 1 2 [[1, 2]]"
  using loss_nonneg [of "Mat 1 2 [[1, 4]]" "Mat 1 2 [[1, 2]]"]
  by (simp add: wf_mat_def shape_def loss_eq np_mean_def)

section \<open>Running the cells\<close>

lemmas exec_defs = run_cell_def var_def const_def invoke_def logged_def op_def call_def callv_def
  call_method_def pure_def list_display_def tuple_display_def bind_name_def assign_def unpack_def
  expr_def display_def import_name_def for_range_def if_true_def opaque_def

section \<open>Normalized pixels\<close>

lemma divide_255_in_unit:
  "list_all (\<lambda>v. 0 \<le> v \<and> v \<le> 255) (nd_data a) \<Longrightarrow>
   list_all (\<lambda>v. 0 \<le> v \<and> v \<le> 1) (nd_data (np_true_divide a 255))"
  by (simp add: np_true_divide_def list_all_iff)

text \<open>
  Claim C10. When the dataset loader returns image arrays whose raw pixel values all
  lie in \<open>[0, 255]\<close>, loading and normalizing succeed, \<open>x_train\<close> and \<open>x_test\<close> are
  bound to the loaded arrays divided by 255, with their shapes unchanged, and every
  entry of both lies in \<open>[0, 1]\<close>.
\<close>

theorem normalized_pixels_in_unit_interval:
  assumes loader: "env_opaque w ''mnist.load_data'' [] = VTuple [VTuple [VNd a, ya], VTuple [VNd b, yb]]"
    and a: "list_all (\<lambda>v. 0 \<le> v \<and> v \<le> 255) (nd_data a)"
    and b: "list_all (\<lambda>v. 0 \<le> v \<and> v \<le> 255) (nd_data b)"
  shows "\<exists>w'. run_cell (seq load_and_normalize) (\<lambda>k. None) w = (w', None)
           \<and> globals w' ''x_train'' = Some (VNd (np_true_divide a 255))
           \<and> globals w' ''x_test'' = Some (VNd (np_true_divide b 255))
           \<and> nd_shape (np_true_divide a 255) = nd_shape a
           \<and> nd_shape (np_true_divide b 255) = nd_shape b
           \<and> list_all (\<lambda>v. 0 \<le> v \<and> v \<le> 1) (nd_data (np_true_divide a 255))
           \<and> list_all (\<lambda>v. 0 \<le> v \<and> v \<le> 1) (nd_data (np_true_divide b 255))"
proof -
  have "run_cell (seq load_and_normalize) (\<lambda>k. None) w =
        (w\<lparr>globals := (globals w)(''mnist'' \<mapsto> VModule ''keras.datasets.mnist'',
              ''y_train'' \<mapsto> ya, ''y_test'' \<mapsto> yb,
              ''x_train'' \<mapsto> VNd (np_true_divide a 255), ''x_test'' \<mapsto> VNd (np_true_divide b 255)),
            out := [],
            calls := [(''import keras.datasets.mnist'', None), (''mnist.load_data'', None),
                      (''x_train / 255.0'', None), (''x_test / 255.0'', None)],
            faults := \<lambda>k. None\<rparr>, None)"
    using loader
    by (simp add: load_and_normalize_def exec_defs nd_divide_def fun_upd_twist)
  then show ?thesis
    using divide_255_in_unit [OF a] divide_255_in_unit [OF b]
    by (simp add: np_true_divide_def)
qed

theorem normalized_pixels_in_unit_interval_witness:
  "env_opaque example_world ''mnist.load_data'' []
     = VTuple [VTuple [VNd (NDArray [1, 1, 2] [0, 255]), VNd (NDArray [1] [7])],
               VTuple [VNd (NDArray [1, 1, 2] [51, 102]), VNd (NDArray [1] [3])]]
   \<and> list_all (\<lambda>v. 0 \<le> v \<and> v \<le> 255) (nd_data (NDArray [1, 1, 2] [0, 255 :: real]))
   \<and> list_all (\<lambda>v. 0 \<le> v \<and> v \<le> 255) (nd_data (NDArray [1, 1, 2] [51, 102 :: real]))
   \<and> (\<exists>w'. run_cell (seq load_and_normalize) (\<lambda>k. None) example_world = (w', None)
          \<and> globals w' ''x_train'' = Some (VNd (NDArray [1, 1, 2] [0, 1]))
          \<and> globals w' ''x_test'' = Some (VNd (NDArray [1, 1, 2] [1 / 5, 2 / 5])))"
proof -
  have h: "env_opaque example_world ''mnist.load_data'' []
     = VTuple [VTuple [VNd (NDArray [1, 1, 2] [0, 255]), VNd (NDArray [1] [7])],
               VTuple [VNd (NDArray [1, 1, 2] [51, 102]), VNd (NDArray [1] [3])]]"
    "list_all (\<lambda>v. 0 \<le> v \<and> v \<le> 255) (nd_data (NDArray [1, 1, 2] [0, 255 :: real]))"
    "list_all (\<lambda>v. 0 \<le> v \<and> v \<le> 255) (nd_data (NDArray [1, 1, 2] [51, 102 :: real]))"
    by (simp_all add: example_world_def)
  from normalized_pixels_in_unit_interval [OF h] h show ?thesis
    by (simp add: np_true_divide_def)
qed

lemmas tf_defs = tf_reset_default_graph_def tf_placeholder_def dim_of_def as_tensor_def
  tf_constant_initializer_def tf_get_variable_def tensor_op1_def tensor_op2_def tf_matmul_def
  tf_relu_def tf_subtract_def tf_square_def tf_reduce_mean_def tf_global_variables_initializer_def
  tf_GradientDescentOptimizer_def optimizer_minimize_def is_optimizer_def initial_value_def
  fetch_value_def run_operation_def run_fetches_def dim_accepts_def feed_accepted_def
  is_session_def tf_Session_def session_run_def close_session_def session_close_def
  with_session_def py_print_def plt_scatter_def plt_figure_def plt_plot_def mat_size_def

lemmas keras_defs = keras_clear_session_def keras_Dense_def keras_Sequential_def is_model_def
  build_layer_def model_add_def model_set_weights_def model_summary_def

lemma sel_tf_nn_relu [simp]:
  "nrows (tf_nn_relu a) = nrows a" "ncols (tf_nn_relu a) = ncols a"
  by (simp_all add: tf_nn_relu_def)

section \<open>The three implementations of the network\<close>

text \<open>
  The TensorFlow cell, run without a failure of the library in a session where the
  variables of the NumPy cell are bound to arrays of matching shapes.
\<close>

lemma tensorflow_cell_succeeds:
  assumes g: "globals w ''tf'' = Some (VModule m1)" "globals w ''plt'' = Some (VModule m2)"
      "globals w ''batch_size'' = Some (VInt (int b))" "globals w ''n_x'' = Some (VInt (int nx))"
      "globals w ''n_h'' = Some (VInt (int nh))" "globals w ''n_y'' = Some (VInt (int ny))"
      "globals w ''x_np'' = Some (VMat x)" "globals w ''W_h_np'' = Some (VMat Wh)"
      "globals w ''W_y_np'' = Some (VMat Wy)" "globals w ''y_np'' = Some (VMat yn)"
    and s: "nrows x = b" "ncols x = nx" "nrows Wh = nx" "ncols Wh = nh" "nrows Wy = nh" "ncols Wy = ny"
      "nrows yn = b" "ncols yn = ny"
  shows "\<exists>w1. run_cell tensorflow_cell (\<lambda>k. None) w = (w1, None)
      \<and> globals w1 ''y_val'' = Some (VMat (matrix_product (tf_nn_relu (matrix_product x Wh)) Wy))
      \<and> tf_open_sessions w1 = tf_open_sessions w
      \<and> (\<forall>n. n \<notin> {''x'', ''W_h'', ''W_y'', ''h'', ''y'', ''sess'', ''y_val''} \<longrightarrow> globals w1 n = globals w n)
      \<and> out w1 = [Printed [VTensor (MatMul (Relu (MatMul (Placeholder 0 (Some b) (Some nx)) (Variable ''W_h'' nx nh))) (Variable ''W_y'' nh ny))],
                   Printed [VMat (matrix_product (tf_nn_relu (matrix_product x Wh)) Wy)],
                   Scatter (matrix_product (tf_nn_relu (matrix_product x Wh)) Wy) yn,
                   Displayed (VObject ''PathCollection'' [])]
      \<and> env_glorot w1 = env_glorot w \<and> env_opaque w1 = env_opaque w"
  using g s
  by (simp add: tensorflow_cell_def build_graph_def run_graph_def exec_defs tf_defs shape_def)

lemma keras_cell_succeeds:
  assumes g: "globals w ''n_x'' = Some (VInt (int nx))"
      "globals w ''n_h'' = Some (VInt (int nh))" "globals w ''n_y'' = Some (VInt (int ny))"
      "globals w ''W_h_np'' = Some (VMat Wh)" "globals w ''W_y_np'' = Some (VMat Wy)"
    and s: "nrows Wh = nx" "ncols Wh = nh" "nrows Wy = nh" "ncols Wy = ny" "0 < nh" "0 < ny"
  shows "\<exists>w2. run_cell keras_cell (\<lambda>k. None) w = (w2, None)
      \<and> globals w2 ''model'' = Some (VModel [Dense nh ReLU (Some nx) (Some Wh), Dense ny Linear (Some nh) (Some Wy)])"
  using g s
  by (simp add: keras_cell_def exec_defs keras_defs shape_def)

lemma predict_two_layers:
  assumes "ncols x = nx" "ncols Wh = nh"
  shows "model_predict (VModel [Dense nh ReLU (Some nx) (Some Wh), Dense ny Linear (Some nh) (Some Wy)]) x
     = Inr (matrix_product (tf_nn_relu (matrix_product x Wh)) Wy)"
  using assms by (simp add: model_predict_def apply_activation_def)

text \<open>
  Claim C1. In a session where the NumPy cell has bound the hyperparameters, an input
  batch \<open>x\<close> of shape \<open>(batch_size, n_x)\<close> and weights \<open>W_h\<close> (\<open>n_x\<close> by \<open>n_h\<close>) and \<open>W_y\<close>
  (\<open>n_h\<close> by \<open>n_y\<close>), and no library call fails: the NumPy expression, the value
  \<open>y_val\<close> that the TensorFlow cell fetches from its graph, and the prediction of the
  model that the Keras cell builds are the same array, \<open>relu(x . W_h) . W_y\<close>.
\<close>

theorem mlp_implementations_agree:
  assumes g: "globals w ''tf'' = Some (VModule m1)" "globals w ''plt'' = Some (VModule m2)"
      "globals w ''batch_size'' = Some (VInt (int b))" "globals w ''n_x'' = Some (VInt (int nx))"
      "globals w ''n_h'' = Some (VInt (int nh))" "globals w ''n_y'' = Some (VInt (int ny))"
      "globals w ''x_np'' = Some (VMat x)" "globals w ''W_h_np'' = Some (VMat Wh)"
      "globals w ''W_y_np'' = Some (VMat Wy)" "globals w ''y_np'' = Some (VMat yn)"
    and s: "wf_mat x" "shape x = (b, nx)" "shape Wh = (nx, nh)" "shape Wy = (nh, ny)"
      "shape yn = (b, ny)" "0 < nh" "0 < ny"
  shows "\<exists>r w1 w2 m.
           r = matrix_product (tf_nn_relu (matrix_product x Wh)) Wy
         \<and> y_np x Wh Wy = Inr r
         \<and> run_cell tensorflow_cell (\<lambda>k. None) w = (w1, None)
         \<and> globals w1 ''y_val'' = Some (VMat r)
         \<and> run_cell keras_cell (\<lambda>k. None) w1 = (w2, None)
         \<and> globals w2 ''model'' = Some m
         \<and> model_predict m x = Inr r"
proof -
  let ?r = "matrix_product (tf_nn_relu (matrix_product x Wh)) Wy"
  have d: "nrows x = b" "ncols x = nx" "nrows Wh = nx" "ncols Wh = nh" "nrows Wy = nh"
    "ncols Wy = ny" "nrows yn = b" "ncols yn = ny"
    using s by (simp_all add: shape_def)
  have np: "y_np x Wh Wy = Inr ?r"
    using s(1-4) by (rule forward_shapes(2))
  from tensorflow_cell_succeeds [OF g d] obtain w1 where
    w1: "run_cell tensorflow_cell (\<lambda>k. None) w = (w1, None)"
      "globals w1 ''y_val'' = Some (VMat ?r)"
      "\<forall>n. n \<notin> {''x'', ''W_h'', ''W_y'', ''h'', ''y'', ''sess'', ''y_val''} \<longrightarrow> globals w1 n = globals w n"
    by blast
  have g1: "globals w1 ''n_x'' = Some (VInt (int nx))"
    "globals w1 ''n_h'' = Some (VInt (int nh))" "globals w1 ''n_y'' = Some (VInt (int ny))"
    "globals w1 ''W_h_np'' = Some (VMat Wh)" "globals w1 ''W_y_np'' = Some (VMat Wy)"
    using w1(3) g by simp_all
  from keras_cell_succeeds [OF g1 d(3-6) s(6,7)] obtain w2 where
    w2: "run_cell keras_cell (\<lambda>k. None) w1 = (w2, None)"
      "globals w2 ''model'' = Some (VModel [Dense nh ReLU (Some nx) (Some Wh), Dense ny Linear (Some nh) (Some Wy)])"
    by blast
  have "model_predict (VModel [Dense nh ReLU (Some nx) (Some Wh), Dense ny Linear (Some nh) (Some Wy)]) x = Inr ?r"
    using d(2,4) by (rule predict_two_layers)
  with np w1(1,2) w2 show ?thesis by blast
qed

theorem mlp_implementations_agree_witness:
  "globals example_mlp_world ''tf'' = Some (VModule ''tensorflow'')
   \<and> globals example_mlp_world ''plt'' = Some (VModule ''matplotlib.pyplot'')
   \<and> globals example_mlp_world ''batch_size'' = Some (VInt (int 1))
   \<and> globals example_mlp_world ''n_x'' = Some (VInt (int 2))
   \<and> globals example_mlp_world ''n_h'' = Some (VInt (int 2))
   \<and> globals example_mlp_world ''n_y'' = Some (VInt (int 1))
   \<and> globals example_mlp_world ''x_np'' = Some (VMat (Mat 1 2 [[1, 2]]))
   \<and> globals example_mlp_world ''W_h_np'' = Some (VMat (Mat 2 2 [[1, -1], [0, 0]]))
   \<and> globals example_mlp_world ''W_y_np'' = Some (VMat (Mat 2 1 [[2], [3]]))
   \<and> globals example_mlp_world ''y_np'' = Some (VMat (Mat 1 1 [[2]]))
   \<and> wf_mat (Mat 1 2 [[1, 2 :: real]])
   \<and> (\<exists>w1 w2 m.
         y_np (Mat 1 2 [[1, 2]]) (Mat 2 2 [[1, -1], [0, 0]]) (Mat 2 1 [[2], [3]]) = Inr (Mat 1 1 [[2]])
       \<and> run_cell tensorflow_cell (\<lambda>k. None) example_mlp_world = (w1, None)
       \<and> globals w1 ''y_val'' = Some (VMat (Mat 1 1 [[2]]))
       \<and> run_cell keras_cell (\<lambda>k. None) w1 = (w2, None)
       \<and> globals w2 ''model'' = Some m
       \<and> model_predict m (Mat 1 2 [[1, 2]]) = Inr (Mat 1 1 [[2]]))"
proof -
  have g: "globals example_mlp_world ''tf'' = Some (VModule ''tensorflow'')"
    "globals example_mlp_world ''plt'' = Some (VModule ''matplotlib.pyplot'')"
    "globals example_mlp_world ''batch_size'' = Some (VInt (int 1))"
    "globals example_mlp_world ''n_x'' = Some (VInt (int 2))"
    "globals example_mlp_world ''n_h'' = Some (VInt (int 2))"
    "globals example_mlp_world ''n_y'' = Some (VInt (int 1))"
    "globals example_mlp_world ''x_np'' = Some (VMat (Mat 1 2 [[1, 2]]))"
    "globals example_mlp_world ''W_h_np'' = Some (VMat (Mat 2 2 [[1, -1], [0, 0]]))"
    "globals example_mlp_world ''W_y_np'' = Some (VMat (Mat 2 1 [[2], [3]]))"
    "globals example_mlp_world ''y_np'' = Some (VMat (Mat 1 1 [[2]]))"
    by (simp_all add: example_mlp_world_def example_world_def)
  have s: "wf_mat (Mat 1 2 [[1, 2 :: real]])"
    "shape (Mat 1 2 [[1, 2 :: real]]) = (1, 2)"
    "shape (Mat 2 2 [[1, -1], [0, 0 :: real]]) = (2, 2)"
    "shape (Mat 2 1 [[2], [3 :: real]]) = (2, 1)"
    "shape (Mat 1 1 [[2 :: real]]) = (1, 1)" "0 < (2 :: nat)" "0 < (1 :: nat)"
    by (simp_all add: wf_mat_def shape_def)
  have r: "matrix_product (tf_nn_relu (matrix_product (Mat 1 2 [[1, 2]]) (Mat 2 2 [[1, -1], [0, 0]])))
             (Mat 2 1 [[2], [3]]) = Mat 1 1 [[2]]"
    by (simp add: matrix_product_def dot_row_def column_def tf_nn_relu_def map_mat_def upt_rec)
  from mlp_implementations_agree [OF g s] r g s(1) show ?thesis
    by auto
qed

section \<open>Running the same code in related sessions\<close>

lemma erespD:
  assumes "eresp R R' e" "R w1 w2" "e w1 = (a, u1)"
  shows "\<exists>u2. e w2 = (a, u2) \<and> (if isl a then R u1 u2 else R' u1 u2)"
proof -
  from assms(1,2) have "fst (e w1) = fst (e w2)"
    and "if isl (fst (e w1)) then R (snd (e w1)) (snd (e w2)) else R' (snd (e w1)) (snd (e w2))"
    unfolding eresp_def by blast+
  with assms(3) show ?thesis by (cases "e w2") auto
qed

lemma erespI:
  assumes "\<And>w1 w2 a u1. R w1 w2 \<Longrightarrow> e w1 = (a, u1) \<Longrightarrow>
             \<exists>u2. e w2 = (a, u2) \<and> (if isl a then R u1 u2 else R' u1 u2)"
  shows "eresp R R' e"
  unfolding eresp_def
proof (intro allI impI)
  fix w1 w2 assume r: "R w1 w2"
  obtain a u1 where e: "e w1 = (a, u1)" by (cases "e w1")
  from assms [OF r e] obtain u2 where "e w2 = (a, u2)" "if isl a then R u1 u2 else R' u1 u2"
    by blast
  with e show "fst (e w1) = fst (e w2) \<and>
       (if isl (fst (e w1)) then R (snd (e w1)) (snd (e w2)) else R' (snd (e w1)) (snd (e w2)))"
    by simp
qed

lemma srespD:
  assumes "sresp R R' s" "R w1 w2" "s w1 = (u1, r)"
  shows "\<exists>u2. s w2 = (u2, r) \<and> (if r = None then R' u1 u2 else R u1 u2)"
proof -
  from assms(1,2) have "snd (s w1) = snd (s w2)"
    and "if snd (s w1) = None then R' (fst (s w1)) (fst (s w2)) else R (fst (s w1)) (fst (s w2))"
    unfolding sresp_def by blast+
  with assms(3) show ?thesis by (cases "s w2") auto
qed

lemma srespI:
  assumes "\<And>w1 w2 u1 r. R w1 w2 \<Longrightarrow> s w1 = (u1, r) \<Longrightarrow>
             \<exists>u2. s w2 = (u2, r) \<and> (if r = None then R' u1 u2 else R u1 u2)"
  shows "sresp R R' s"
  unfolding sresp_def
proof (intro allI impI)
  fix w1 w2 assume r: "R w1 w2"
  obtain u1 x where e: "s w1 = (u1, x)" by (cases "s w1")
  from assms [OF r e] obtain u2 where "s w2 = (u2, x)" "if x = None then R' u1 u2 else R u1 u2"
    by blast
  with e show "snd (s w1) = snd (s w2) \<and>
       (if snd (s w1) = None then R' (fst (s w1)) (fst (s w2)) else R (fst (s w1)) (fst (s w2)))"
    by simp
qed

lemma eresp_var:
  assumes "\<And>w1 w2. R w1 w2 \<Longrightarrow> globals w1 n = globals w2 n"
  shows "eresp R R (var n)"
proof (rule erespI)
  fix w1 w2 a u1 assume r: "R w1 w2" and e: "var n w1 = (a, u1)"
  from assms [OF r] e r show "\<exists>u2. var n w2 = (a, u2) \<and> (if isl a then R u1 u2 else R u1 u2)"
    by (auto simp: var_def split: option.splits)
qed

lemma eresp_const: "eresp R R (const v)"
  by (rule erespI) (auto simp: const_def)

lemma eresp_args:
  assumes "list_all (eresp R R) es"
  shows "eresp R R (args es)"
  using assms
proof (induction es)
  case Nil
  then show ?case by (auto intro!: erespI)
next
  case (Cons e es)
  then have e: "eresp R R e" and es: "eresp R R (args es)" by simp_all
  show ?case
  proof (rule erespI)
    fix w1 w2 a u1 assume r: "R w1 w2" and x: "args (e # es) w1 = (a, u1)"
    obtain a1 t1 where a1: "e w1 = (a1, t1)" by (cases "e w1")
    from erespD [OF e r a1] obtain t2 where a2: "e w2 = (a1, t2)" and r1: "R t1 t2"
      by (auto split: if_splits)
    show "\<exists>u2. args (e # es) w2 = (a, u2) \<and> (if isl a then R u1 u2 else R u1 u2)"
    proof (cases a1)
      case (Inl err)
      with a1 a2 r1 x show ?thesis by auto
    next
      case (Inr v)
      obtain b1 s1 where b1: "args es t1 = (b1, s1)" by (cases "args es t1")
      from erespD [OF es r1 b1] obtain s2 where b2: "args es t2 = (b1, s2)" and r2: "R s1 s2"
        by (auto split: if_splits)
      from a1 a2 b1 b2 r2 Inr x show ?thesis
        by (cases b1) auto
    qed
  qed
qed

lemma related_logged:
  "related rel t w1 w2 \<Longrightarrow> related rel t (logged name r w1) (logged name r w2)"
  by (simp add: related_def logged_def)

lemma related_relog:
  "related rel t u1 u2 \<Longrightarrow> calls w1 = calls w2 \<Longrightarrow> faults w1 = faults w2 \<Longrightarrow>
   related rel t (logged name r (u1\<lparr>calls := calls w1, faults := faults w1\<rparr>))
                 (logged name r (u2\<lparr>calls := calls w2, faults := faults w2\<rparr>))"
  by (simp add: related_def logged_def)

lemma related_bind:
  "related rel t w1 w2 \<Longrightarrow> related (rel(n := (=))) t (bind_name n v w1) (bind_name n v w2)"
  by (simp add: related_def bind_name_def)

lemma related_mono:
  assumes "related rel' t' w1 w2" "\<And>n a b. rel' n a b \<Longrightarrow> rel n a b" "t \<Longrightarrow> t'"
  shows "related rel t w1 w2"
  using assms by (auto simp: related_def)

lemma lrespD:
  assumes "lresp R R' f" "R w1 w2"
  shows "f vs w1 = Inl e \<Longrightarrow> f vs w2 = Inl e"
    and "f vs w1 = Inr (v, u1) \<Longrightarrow> \<exists>u2. f vs w2 = Inr (v, u2) \<and> R' u1 u2"
proof -
  have c: "case f vs w1 of
           Inl a \<Rightarrow> f vs w2 = Inl a
         | Inr (a, u1) \<Rightarrow>
             (case f vs w2 of
                Inl b \<Rightarrow> False
              | Inr (b, u2) \<Rightarrow> a = b \<and> R' u1 u2)"
    using assms unfolding lresp_def by blast
  show "f vs w1 = Inl e \<Longrightarrow> f vs w2 = Inl e"
    using c by simp
  show "f vs w1 = Inr (v, u1) \<Longrightarrow> \<exists>u2. f vs w2 = Inr (v, u2) \<and> R' u1 u2"
    using c by (cases "f vs w2") auto
qed

lemma eresp_invoke:
  assumes f: "lresp (related rel t) (related rel' t') f"
  shows "eresp (related rel t) (related rel' t') (invoke name f vs)"
proof (rule erespI)
  fix w1 w2 a u1
  assume r: "related rel t w1 w2" and e: "invoke name f vs w1 = (a, u1)"
  from r have c: "calls w1 = calls w2" "faults w1 = faults w2" by (simp_all add: related_def)
  show "\<exists>u2. invoke name f vs w2 = (a, u2)
           \<and> (if isl a then related rel t u1 u2 else related rel' t' u1 u2)"
  proof (cases "faults w1 (length (calls w1))")
    case (Some err)
    with e c r show ?thesis by (auto simp: invoke_def related_logged)
  next
    case None
    show ?thesis
    proof (cases "f vs w1")
      case (Inl err)
      with f r have "f vs w2 = Inl err" by (auto dest: lrespD(1))
      with Inl None e c r show ?thesis by (auto simp: invoke_def related_logged)
    next
      case (Inr p)
      obtain v t1 where p: "p = (v, t1)" by (cases p)
      from lrespD(2) [OF f r] Inr p obtain t2
        where f2: "f vs w2 = Inr (v, t2)" and r': "related rel' t' t1 t2"
        by blast
      from r' c have "related rel' t'
          (logged name None (t1\<lparr>calls := calls w1, faults := faults w1\<rparr>))
          (logged name None (t2\<lparr>calls := calls w2, faults := faults w2\<rparr>))"
        by (rule related_relog)
      with Inr p f2 None e c show ?thesis by (auto simp: invoke_def)
    qed
  qed
qed

lemma eresp_bind_args:
  assumes es: "eresp R R (args es)"
    and k: "\<And>vs. eresp R R' (k vs)"
  shows "eresp R R' (\<lambda>w. case args es w of (Inl x, w1) \<Rightarrow> (Inl x, w1) | (Inr vs, w1) \<Rightarrow> k vs w1)"
proof (rule erespI)
  fix w1 w2 a u1
  assume r: "R w1 w2"
    and e: "(case args es w1 of (Inl x, w1) \<Rightarrow> (Inl x, w1) | (Inr vs, w1) \<Rightarrow> k vs w1) = (a, u1)"
  obtain b t1 where b: "args es w1 = (b, t1)" by (cases "args es w1")
  from erespD [OF es r b] obtain t2 where b2: "args es w2 = (b, t2)" and r1: "R t1 t2"
    by (auto split: if_splits)
  show "\<exists>u2. (case args es w2 of (Inl x, w1) \<Rightarrow> (Inl x, w1) | (Inr vs, w1) \<Rightarrow> k vs w1) = (a, u2)
          \<and> (if isl a then R u1 u2 else R' u1 u2)"
  proof (cases b)
    case (Inl x)
    with b b2 r1 e show ?thesis by auto
  next
    case (Inr vs)
    with b e have "k vs t1 = (a, u1)" by simp
    from erespD [OF k r1 this] Inr b2 show ?thesis by auto
  qed
qed

lemma eresp_op:
  assumes "list_all (eresp (related rel t) (related rel t)) es"
    and "lresp (related rel t) (related rel' t') f"
  shows "eresp (related rel t) (related rel' t') (op name f es)"
  unfolding op_def
  by (rule eresp_bind_args [OF eresp_args [OF assms(1)] eresp_invoke [OF assms(2)]])

lemma eresp_pure:
  assumes "list_all (eresp R R) es"
  shows "eresp R R (pure f es)"
  unfolding pure_def
  by (rule eresp_bind_args [OF eresp_args [OF assms]]) (auto intro!: erespI)

lemma eresp_call:
  assumes m: "\<And>a b. rel m a b \<Longrightarrow> a = b"
    and "list_all (eresp (related rel t) (related rel t)) es"
    and "lresp (related rel t) (related rel' t') f"
  shows "eresp (related rel t) (related rel' t') (call m name f es)"
proof (rule erespI)
  fix w1 w2 a u1
  assume r: "related rel t w1 w2" and e: "call m name f es w1 = (a, u1)"
  from r m have g: "globals w1 m = globals w2 m" by (auto simp: related_def)
  show "\<exists>u2. call m name f es w2 = (a, u2)
          \<and> (if isl a then related rel t u1 u2 else related rel' t' u1 u2)"
  proof (cases "\<exists>s. globals w1 m = Some (VModule s)")
    case True
    then obtain s where s: "globals w1 m = Some (VModule s)" by blast
    with e have "op (m @ ''.'' @ name) f es w1 = (a, u1)" by (simp add: call_def)
    from erespD [OF eresp_op [OF assms(2,3)] r this] s g show ?thesis
      by (simp add: call_def)
  next
    case False
    with e g r show ?thesis
      by (auto simp: call_def split: option.splits pyval.splits)
  qed
qed

lemma eresp_callv:
  assumes m: "\<And>a b. rel m a b \<Longrightarrow> a = b"
    and "list_all (eresp (related rel t) (related rel t)) es"
    and "lresp (related rel t) (related rel' t') f"
  shows "eresp (related rel t) (related rel' t') (callv m f es)"
proof (rule erespI)
  fix w1 w2 a u1
  assume r: "related rel t w1 w2" and e: "callv m f es w1 = (a, u1)"
  from r m have g: "globals w1 m = globals w2 m" by (auto simp: related_def)
  show "\<exists>u2. callv m f es w2 = (a, u2)
          \<and> (if isl a then related rel t u1 u2 else related rel' t' u1 u2)"
  proof (cases "\<exists>s. globals w1 m = Some (VModule s)")
    case True
    then obtain s where s: "globals w1 m = Some (VModule s)" by blast
    with e have "op m f es w1 = (a, u1)" by (simp add: callv_def)
    from erespD [OF eresp_op [OF assms(2,3)] r this] s g show ?thesis
      by (simp add: callv_def)
  next
    case False
    with e g r show ?thesis
      by (auto simp: callv_def split: option.splits pyval.splits)
  qed
qed

lemma eresp_call_method:
  assumes v: "\<And>a b. rel v a b \<Longrightarrow> a = b"
    and es: "list_all (eresp (related rel t) (related rel t)) es"
    and f: "\<And>obj. lresp (related rel t) (related rel' t')
              (\<lambda>vs w1. case f obj vs w1 of
                     Inl e \<Rightarrow> Inl e
                   | Inr (r, obj', w2) \<Rightarrow> Inr (r, w2\<lparr>globals := (globals w2)(v \<mapsto> obj')\<rparr>))"
  shows "eresp (related rel t) (related rel' t') (call_method v name has f es)"
proof (rule erespI)
  fix w1 w2 a u1
  assume r: "related rel t w1 w2" and e: "call_method v name has f es w1 = (a, u1)"
  from r v have g: "globals w1 v = globals w2 v" by (auto simp: related_def)
  show "\<exists>u2. call_method v name has f es w2 = (a, u2)
          \<and> (if isl a then related rel t u1 u2 else related rel' t' u1 u2)"
  proof (cases "globals w1 v")
    case None
    with e g r show ?thesis by (auto simp: call_method_def)
  next
    case (Some obj)
    show ?thesis
    proof (cases "has obj")
      case False
      with Some e g r show ?thesis by (auto simp: call_method_def)
    next
      case True
      let ?g = "\<lambda>vs w1. case f obj vs w1 of
                     Inl e \<Rightarrow> Inl e
                   | Inr (r, obj', w2) \<Rightarrow> Inr (r, w2\<lparr>globals := (globals w2)(v \<mapsto> obj')\<rparr>)"
      from True Some e have "op (v @ ''.'' @ name) ?g es w1 = (a, u1)"
        by (simp add: call_method_def)
      from erespD [OF eresp_op [OF es f] r this] True Some g show ?thesis
        by (simp add: call_method_def)
    qed
  qed
qed

lemma sresp_seq_Nil: "sresp R R (seq [])"
  by (rule srespI) simp

lemma sresp_seq_Cons:
  assumes s: "sresp R R1 s" and ss: "sresp R1 R2 (seq ss)"
    and le: "\<And>w1 w2. R1 w1 w2 \<Longrightarrow> R w1 w2"
  shows "sresp R R2 (seq (s # ss))"
proof (rule srespI)
  fix w1 w2 u1 r assume r: "R w1 w2" and e: "seq (s # ss) w1 = (u1, r)"
  obtain t1 x where x: "s w1 = (t1, x)" by (cases "s w1")
  from srespD [OF s r x] obtain t2 where x2: "s w2 = (t2, x)"
    and r1: "if x = None then R1 t1 t2 else R t1 t2" by blast
  show "\<exists>u2. seq (s # ss) w2 = (u2, r) \<and> (if r = None then R2 u1 u2 else R u1 u2)"
  proof (cases x)
    case (Some err)
    with x x2 r1 e show ?thesis by auto
  next
    case None
    with x e have "seq ss t1 = (u1, r)" by simp
    from srespD [OF ss _ this] None r1 obtain u2 where "seq ss t2 = (u2, r)"
      "if r = None then R2 u1 u2 else R1 u1 u2" by auto
    with None x2 le show ?thesis by (auto split: if_splits)
  qed
qed

lemma sresp_append:
  assumes s: "sresp R R1 (seq xs)" and ss: "sresp R1 R2 (seq ys)"
    and le: "\<And>w1 w2. R1 w1 w2 \<Longrightarrow> R w1 w2"
  shows "sresp R R2 (seq (xs @ ys))"
proof -
  have sq: "seq (xs @ ys) w = (case seq xs w of (w1, Some e) \<Rightarrow> (w1, Some e) | (w1, None) \<Rightarrow> seq ys w1)" for w
    by (induction xs arbitrary: w) (auto split: prod.splits option.splits)
  show ?thesis
  proof (rule srespI)
    fix w1 w2 u1 r assume r: "R w1 w2" and e: "seq (xs @ ys) w1 = (u1, r)"
    obtain t1 x where x: "seq xs w1 = (t1, x)" by (cases "seq xs w1")
    from srespD [OF s r x] obtain t2 where x2: "seq xs w2 = (t2, x)"
      and r1: "if x = None then R1 t1 t2 else R t1 t2" by blast
    show "\<exists>u2. seq (xs @ ys) w2 = (u2, r) \<and> (if r = None then R2 u1 u2 else R u1 u2)"
    proof (cases x)
      case (Some err)
      with x x2 r1 e show ?thesis by (auto simp: sq)
    next
      case None
      with x e have "seq ys t1 = (u1, r)" by (simp add: sq)
      from srespD [OF ss _ this] None r1 obtain u2 where "seq ys t2 = (u2, r)"
        "if r = None then R2 u1 u2 else R1 u1 u2" by auto
      with None x2 le show ?thesis by (auto simp: sq split: if_splits)
    qed
  qed
qed

lemma sresp_assign:
  assumes e: "eresp (related rel t) (related rel' t') e"
  shows "sresp (related rel t) (related (rel'(n := (=))) t') (assign n e)"
proof (rule srespI)
  fix w1 w2 u1 r assume r: "related rel t w1 w2" and x: "assign n e w1 = (u1, r)"
  obtain a t1 where a: "e w1 = (a, t1)" by (cases "e w1")
  from erespD [OF e r a] obtain t2 where a2: "e w2 = (a, t2)"
    and r1: "if isl a then related rel t t1 t2 else related rel' t' t1 t2" by blast
  show "\<exists>u2. assign n e w2 = (u2, r)
          \<and> (if r = None then related (rel'(n := (=))) t' u1 u2 else related rel t u1 u2)"
  proof (cases a)
    case (Inl err)
    with a a2 r1 x show ?thesis by (auto simp: assign_def)
  next
    case (Inr v)
    with a a2 r1 x related_bind [of rel' t' t1 t2 n v] show ?thesis
      by (auto simp: assign_def)
  qed
qed

lemma sresp_expr:
  assumes e: "eresp R R' e"
  shows "sresp R R' (expr e)"
proof (rule srespI)
  fix w1 w2 u1 r assume r: "R w1 w2" and x: "expr e w1 = (u1, r)"
  obtain a t1 where a: "e w1 = (a, t1)" by (cases "e w1")
  from erespD [OF e r a] obtain t2 where a2: "e w2 = (a, t2)"
    and r1: "if isl a then R t1 t2 else R' t1 t2" by blast
  from a a2 r1 x show "\<exists>u2. expr e w2 = (u2, r) \<and> (if r = None then R' u1 u2 else R u1 u2)"
    by (cases a) (auto simp: expr_def)
qed

lemma sresp_display:
  assumes e: "eresp (related rel t) (related rel' t') e"
  shows "sresp (related rel t) (related rel' t') (display e)"
proof (rule srespI)
  fix w1 w2 u1 r assume r: "related rel t w1 w2" and x: "display e w1 = (u1, r)"
  obtain a t1 where a: "e w1 = (a, t1)" by (cases "e w1")
  from erespD [OF e r a] obtain t2 where a2: "e w2 = (a, t2)"
    and r1: "if isl a then related rel t t1 t2 else related rel' t' t1 t2" by blast
  from a a2 r1 x show "\<exists>u2. display e w2 = (u2, r)
       \<and> (if r = None then related rel' t' u1 u2 else related rel t u1 u2)"
    by (cases a) (auto simp: display_def related_def)
qed

lemma lresp_import: "lresp (related rel t) (related rel t) (\<lambda>vs w. Inr (VModule lib, w))"
  by (simp add: lresp_def)

lemma sresp_import:
  "sresp (related rel t) (related (rel(n := (=))) t) (import_name n lib)"
  unfolding import_name_def
  by (rule sresp_assign) (rule eresp_invoke [OF lresp_import])

lemma lresp_stateless:
  assumes "\<And>vs w. f vs w = (case g vs of Inl e \<Rightarrow> Inl e | Inr v \<Rightarrow> Inr (v, w))"
  shows "lresp R R f"
  unfolding lresp_def by (auto simp: assms split: sum.splits)

lemma lresp_nd_reshape: "lresp R R nd_reshape"
proof (rule lresp_stateless)
  fix vs w
  show "nd_reshape vs w =
    (case (case vs of
        [VNd a, VInt d0, VInt d1, VInt d2] \<Rightarrow>
          (case np_reshape a [d0, d1, d2] of Inl e \<Rightarrow> Inl e | Inr b \<Rightarrow> Inr (VNd b))
      | _ \<Rightarrow> Inl TypeError) of Inl e \<Rightarrow> Inl e | Inr v \<Rightarrow> Inr (v, w))"
    by (simp add: nd_reshape_def split: list.split pyval.split sum.split)
qed

lemma lresp_opaque: "lresp (related rel t) (related rel t) (opaque name)"
  by (simp add: lresp_def opaque_def related_def)

lemma lresp_print: "lresp (related rel t) (related rel t) py_print"
  by (simp add: lresp_def py_print_def related_def)

section \<open>The evaluation input of the recurrent network\<close>

lemma same_but_x_test_upd:
  "n \<noteq> ''x_test'' \<Longrightarrow> same_but_x_test(n := (=)) = same_but_x_test"
  by (auto simp: fun_eq_iff same_but_x_test_def)

lemma same_but_x_test_eq:
  "n \<noteq> ''x_test'' \<Longrightarrow> same_but_x_test n a b \<Longrightarrow> a = b"
  by (simp add: same_but_x_test_def)

lemma x8_var:
  "n \<noteq> ''x_test'' \<Longrightarrow> eresp (related same_but_x_test t) (related same_but_x_test t) (var n)"
  by (rule eresp_var) (auto simp: related_def dest: same_but_x_test_eq)

lemma x8_length:
  "eresp (related same_but_x_test t) (related same_but_x_test t)
     (pure (nd_shape_at 0) [var ''x_test''])"
proof (rule erespI)
  fix w1 w2 a u1
  assume r: "related same_but_x_test t w1 w2"
    and e: "pure (nd_shape_at 0) [var ''x_test''] w1 = (a, u1)"
  from r obtain s s' where s: "globals w1 ''x_test'' = Some (VNd s)"
    "globals w2 ''x_test'' = Some (VNd s')" "shape_at s 0 = shape_at s' 0"
    unfolding related_def same_but_x_test_def by (metis (full_types))
  with e r show "\<exists>u2. pure (nd_shape_at 0) [var ''x_test''] w2 = (a, u2)
      \<and> (if isl a then related same_but_x_test t u1 u2 else related same_but_x_test t u1 u2)"
    by (auto simp: pure_def var_def nd_shape_at_def)
qed

lemma x8_assign:
  assumes "n \<noteq> ''x_test''"
    and "eresp (related same_but_x_test t) (related same_but_x_test t) e"
  shows "sresp (related same_but_x_test t) (related same_but_x_test t) (assign n e)"
  using sresp_assign [OF assms(2), of n] assms(1) by (simp add: same_but_x_test_upd)

lemma x8_import:
  "n \<noteq> ''x_test'' \<Longrightarrow>
   sresp (related same_but_x_test t) (related same_but_x_test t) (import_name n lib)"
  using sresp_import [of same_but_x_test t n lib] by (simp add: same_but_x_test_upd)

lemma x8_Cons:
  assumes "sresp (related same_but_x_test t) (related same_but_x_test t) s"
    and "sresp (related same_but_x_test t) (related same_but_x_test t) (seq ss)"
  shows "sresp (related same_but_x_test t) (related same_but_x_test t) (seq (s # ss))"
  using assms by (rule sresp_seq_Cons)

lemma x8_opaque_method:
  assumes "v \<noteq> ''x_test''"
    and "list_all (eresp (related same_but_x_test t) (related same_but_x_test t)) es"
  shows "eresp (related same_but_x_test t) (related same_but_x_test t)
           (call_method v name has (opaque_method m) es)"
proof (rule eresp_call_method [OF _ assms(2)])
  show "\<And>a b. same_but_x_test v a b \<Longrightarrow> a = b"
    using assms(1) by (rule same_but_x_test_eq)
  show "lresp (related same_but_x_test t) (related same_but_x_test t)
          (\<lambda>vs w1. case opaque_method m obj vs w1 of
                 Inl e \<Rightarrow> Inl e
               | Inr (r, obj', w2) \<Rightarrow> Inr (r, w2\<lparr>globals := (globals w2)(v \<mapsto> obj')\<rparr>))" for obj
    using assms(1) by (auto simp: lresp_def opaque_method_def related_def same_but_x_test_def)
qed

lemma x8_summary:
  assumes "v \<noteq> ''x_test''"
  shows "eresp (related same_but_x_test t) (related same_but_x_test t)
           (call_method v name has model_summary [])"
proof (rule eresp_call_method)
  show "\<And>a b. same_but_x_test v a b \<Longrightarrow> a = b"
    using assms(1) by (rule same_but_x_test_eq)
  show "list_all (eresp (related same_but_x_test t) (related same_but_x_test t)) []" by simp
  show "lresp (related same_but_x_test t) (related same_but_x_test t)
          (\<lambda>vs w1. case model_summary obj vs w1 of
                 Inl e \<Rightarrow> Inl e
               | Inr (r, obj', w2) \<Rightarrow> Inr (r, w2\<lparr>globals := (globals w2)(v \<mapsto> obj')\<rparr>))" for obj
    using assms(1) by (auto simp: lresp_def model_summary_def related_def same_but_x_test_def)
qed

lemma rnn_cell_respects:
  "sresp (related same_but_x_test t) (related same_but_x_test t) rnn_cell"
  unfolding rnn_cell_def reshape_for_rnn_def append.simps
  by (intro x8_Cons sresp_seq_Nil x8_import x8_assign sresp_expr sresp_display
        eresp_op eresp_call eresp_callv x8_opaque_method x8_summary
        lresp_nd_reshape lresp_opaque lresp_print)
     (simp_all add: x8_var x8_length eresp_const eresp_pure same_but_x_test_def)

lemma np_reshape_infer:
  assumes "0 < n" "length (nd_data a) mod n = 0"
  shows "np_reshape a [int n, -1, 1] = Inr (NDArray [n, length (nd_data a) div n, 1] (nd_data a))"
  using assms by (simp add: np_reshape_def Let_def)

lemma rnn_cell_succeeds:
  assumes g: "globals w ''keras'' = Some (VModule k)" "globals w ''x_train'' = Some (VNd a)"
      "globals w ''x_test'' = Some (VNd t)" "globals w ''y_train'' = Some ytr"
      "globals w ''y_test'' = Some yte"
    and s: "nd_shape a = d0 # ra" "nd_shape t = n # rt" "0 < d0" "0 < n"
      "length (nd_data a) mod d0 = 0" "length (nd_data a) mod n = 0"
    and ev: "\<forall>vs. env_opaque w ''model.evaluate'' vs \<noteq> VNone"
  shows "\<exists>u m. run_cell rnn_cell (\<lambda>k. None) w = (u, None)
      \<and> globals u ''x_test_rnn'' = Some (VNd (NDArray [n, length (nd_data a) div n, 1] (nd_data a)))
      \<and> last (out u) = Displayed (env_opaque w ''model.evaluate''
            [m, VNd (NDArray [n, length (nd_data a) div n, 1] (nd_data a)), yte])"
  using g s ev
  by (simp add: rnn_cell_def reshape_for_rnn_def exec_defs nd_reshape_def nd_shape_at_def shape_at_def
      np_reshape_infer opaque_method_def any_object_def model_summary_def py_print_def)
    (rule exI, rule refl)

text \<open>
  Claim C8. \<open>x_test_rnn\<close> is computed from \<open>x_train\<close>; of \<open>x_test\<close> only the length is
  used. Two runs of the cell that differ only in the entries of \<open>x_test\<close> (its length
  the same) end the same way: the same error or none, the same output, the same calls,
  and the same value for every variable other than \<open>x_test\<close> itself, \<open>x_test_rnn\<close>
  and the displayed score included. When nothing fails, \<open>x_test_rnn\<close> holds the
  entries of \<open>x_train\<close> in shape \<open>(len(x_test), -1, 1)\<close>, and the score displayed is the
  one \<open>model.evaluate\<close> gives for these reshaped training pixels and the test labels.
\<close>

theorem x_test_rnn_is_reshaped_x_train:
  assumes t: "globals w ''x_test'' = Some (VNd t)" and len: "shape_at t' 0 = shape_at t 0"
  shows "\<exists>u1 u2 r.
           run_cell rnn_cell fs w = (u1, r)
         \<and> run_cell rnn_cell fs (w\<lparr>globals := (globals w)(''x_test'' \<mapsto> VNd t')\<rparr>) = (u2, r)
         \<and> out u1 = out u2 \<and> calls u1 = calls u2
         \<and> (\<forall>n. n \<noteq> ''x_test'' \<longrightarrow> globals u1 n = globals u2 n)
         \<and> (fs = (\<lambda>k. None) \<and> globals w ''keras'' = Some (VModule k)
              \<and> globals w ''x_train'' = Some (VNd a)
              \<and> globals w ''y_train'' = Some ytr \<and> globals w ''y_test'' = Some yte
              \<and> nd_shape a = d0 # ra \<and> nd_shape t = n # rt \<and> 0 < d0 \<and> 0 < n
              \<and> length (nd_data a) mod d0 = 0 \<and> length (nd_data a) mod n = 0
              \<and> (\<forall>vs. env_opaque w ''model.evaluate'' vs \<noteq> VNone)
            \<longrightarrow> r = None
              \<and> globals u1 ''x_test_rnn''
                  = Some (VNd (NDArray [n, length (nd_data a) div n, 1] (nd_data a)))
              \<and> (\<exists>m. last (out u1) = Displayed (env_opaque w ''model.evaluate''
                    [m, VNd (NDArray [n, length (nd_data a) div n, 1] (nd_data a)), yte])))"
proof -
  let ?w1 = "w\<lparr>out := [], calls := [], faults := fs\<rparr>"
  let ?w' = "w\<lparr>globals := (globals w)(''x_test'' \<mapsto> VNd t')\<rparr>"
  let ?w2 = "?w'\<lparr>out := [], calls := [], faults := fs\<rparr>"
  obtain u1 r where u1: "rnn_cell ?w1 = (u1, r)" by (cases "rnn_cell ?w1")
  have rel: "related same_but_x_test True ?w1 ?w2"
    using t len by (simp add: related_def same_but_x_test_def)
  from srespD [OF rnn_cell_respects rel u1] obtain u2
    where u2: "rnn_cell ?w2 = (u2, r)" and r2: "related same_but_x_test True u1 u2"
    by (auto split: if_splits)
  from r2 have same: "out u1 = out u2" "calls u1 = calls u2"
    "\<forall>n. n \<noteq> ''x_test'' \<longrightarrow> globals u1 n = globals u2 n"
    by (auto simp: related_def same_but_x_test_def)
  have fwd: "r = None
      \<and> globals u1 ''x_test_rnn'' = Some (VNd (NDArray [n, length (nd_data a) div n, 1] (nd_data a)))
      \<and> (\<exists>m. last (out u1) = Displayed (env_opaque w ''model.evaluate''
            [m, VNd (NDArray [n, length (nd_data a) div n, 1] (nd_data a)), yte]))"
    if h: "fs = (\<lambda>k. None)" "globals w ''keras'' = Some (VModule k)"
      "globals w ''x_train'' = Some (VNd a)"
      "globals w ''y_train'' = Some ytr" "globals w ''y_test'' = Some yte"
      "nd_shape a = d0 # ra" "nd_shape t = n # rt" "0 < d0" "0 < n"
      "length (nd_data a) mod d0 = 0" "length (nd_data a) mod n = 0"
      "\<forall>vs. env_opaque w ''model.evaluate'' vs \<noteq> VNone"
  proof -
    from rnn_cell_succeeds [OF h(2,3) t h(4-12)] u1 h(1) show ?thesis
      by (auto simp: run_cell_def)
  qed
  from u1 u2 same fwd show ?thesis
    unfolding run_cell_def by (intro exI [of _ u1] exI [of _ u2] exI [of _ r]) auto
qed

theorem x_test_rnn_is_reshaped_x_train_witness:
  "globals example_mnist_world ''x_test'' = Some (VNd (NDArray [1, 1, 2] [3 / 5, 4 / 5]))
   \<and> shape_at (NDArray [1, 1, 2] [0, 0 :: real]) 0 = shape_at (NDArray [1, 1, 2] [3 / 5, 4 / 5 :: real]) 0
   \<and> (\<exists>u1 u2.
         run_cell rnn_cell (\<lambda>k. None) example_mnist_world = (u1, None)
       \<and> run_cell rnn_cell (\<lambda>k. None)
           (example_mnist_world\<lparr>globals :=
              (globals example_mnist_world)(''x_test'' \<mapsto> VNd (NDArray [1, 1, 2] [0, 0]))\<rparr>) = (u2, None)
       \<and> out u1 = out u2
       \<and> globals u1 ''x_test_rnn'' = Some (VNd (NDArray [1, 4, 1] [0, 1, 1 / 5, 2 / 5]))
       \<and> globals u2 ''x_test_rnn'' = Some (VNd (NDArray [1, 4, 1] [0, 1, 1 / 5, 2 / 5])))"
proof -
  have h: "globals example_mnist_world ''x_test'' = Some (VNd (NDArray [1, 1, 2] [3 / 5, 4 / 5]))"
    "shape_at (NDArray [1, 1, 2] [0, 0 :: real]) 0 = shape_at (NDArray [1, 1, 2] [3 / 5, 4 / 5 :: real]) 0"
    by (simp_all add: example_mnist_world_def example_world_def shape_at_def)
  have p: "(\<lambda>k. None) = (\<lambda>k. None :: py_error option)
      \<and> globals example_mnist_world ''keras'' = Some (VModule ''keras'')
      \<and> globals example_mnist_world ''x_train'' = Some (VNd (NDArray [2, 1, 2] [0, 1, 1 / 5, 2 / 5]))
      \<and> globals example_mnist_world ''y_train'' = Some (VNd (NDArray [2] [7, 3]))
      \<and> globals example_mnist_world ''y_test'' = Some (VNd (NDArray [1] [9]))
      \<and> nd_shape (NDArray [2, 1, 2] [0, 1, 1 / 5, 2 / 5 :: real]) = 2 # [1, 2]
      \<and> nd_shape (NDArray [1, 1, 2] [3 / 5, 4 / 5 :: real]) = 1 # [1, 2] \<and> 0 < (2::nat) \<and> 0 < (1::nat)
      \<and> length (nd_data (NDArray [2, 1, 2] [0, 1, 1 / 5, 2 / 5 :: real])) mod 2 = 0
      \<and> length (nd_data (NDArray [2, 1, 2] [0, 1, 1 / 5, 2 / 5 :: real])) mod 1 = 0
      \<and> (\<forall>vs. env_opaque example_mnist_world ''model.evaluate'' vs \<noteq> VNone)"
    by (simp add: example_mnist_world_def example_world_def)
  from x_test_rnn_is_reshaped_x_train [OF h, where fs = "\<lambda>k. None" and k = "''keras''"
      and a = "NDArray [2, 1, 2] [0, 1, 1 / 5, 2 / 5]" and ytr = "VNd (NDArray [2] [7, 3])"
      and yte = "VNd (NDArray [1] [9])" and ?d0.0 = 2 and ra = "[1, 2]" and n = 1 and rt = "[1, 2]"]
  obtain u1 u2 r where
    u: "run_cell rnn_cell (\<lambda>k. None) example_mnist_world = (u1, r)"
      "run_cell rnn_cell (\<lambda>k. None)
           (example_mnist_world\<lparr>globals :=
              (globals example_mnist_world)(''x_test'' \<mapsto> VNd (NDArray [1, 1, 2] [0, 0]))\<rparr>) = (u2, r)"
      "out u1 = out u2"
      "\<forall>n. n \<noteq> ''x_test'' \<longrightarrow> globals u1 n = globals u2 n"
      "r = None \<and> globals u1 ''x_test_rnn''
         = Some (VNd (NDArray [1, length (nd_data (NDArray [2, 1, 2] [0, 1, 1 / 5, 2 / 5 :: real])) div 1, 1]
                   (nd_data (NDArray [2, 1, 2] [0, 1, 1 / 5, 2 / 5])))) "
    using p by blast
  from u(4) have "globals u1 ''x_test_rnn'' = globals u2 ''x_test_rnn''" by simp
  with u h show ?thesis by auto
qed

section \<open>What the TensorFlow cell depends on\<close>























lemma example_mlp_run:
  assumes "yn = Mat 1 1 [[v]]"
  shows "\<exists>u. run_cell tensorflow_cell (\<lambda>k. None)
           (example_mlp_world\<lparr>globals := (globals example_mlp_world)(''y_np'' \<mapsto> VMat yn)\<rparr>) = (u, None)
         \<and> globals u ''y_val'' = Some (VMat (Mat 1 1 [[2]]))
         \<and> out u = [Printed [VTensor (MatMul (Relu (MatMul (Placeholder 0 (Some 1) (Some 2)) (Variable ''W_h'' 2 2))) (Variable ''W_y'' 2 1))],
                   Printed [VMat (Mat 1 1 [[2]])],
                   Scatter (Mat 1 1 [[2]]) yn,
                   Displayed (VObject ''PathCollection'' [])]"
proof -
  let ?w = "example_mlp_world\<lparr>globals := (globals example_mlp_world)(''y_np'' \<mapsto> VMat yn)\<rparr>"
  have g: "globals ?w ''tf'' = Some (VModule ''tensorflow'')"
    "globals ?w ''plt'' = Some (VModule ''matplotlib.pyplot'')"
    "globals ?w ''batch_size'' = Some (VInt (int 1))"
    "globals ?w ''n_x'' = Some (VInt (int 2))"
    "globals ?w ''n_h'' = Some (VInt (int 2))"
    "globals ?w ''n_y'' = Some (VInt (int 1))"
    "globals ?w ''x_np'' = Some (VMat (Mat 1 2 [[1, 2]]))"
    "globals ?w ''W_h_np'' = Some (VMat (Mat 2 2 [[1, -1], [0, 0]]))"
    "globals ?w ''W_y_np'' = Some (VMat (Mat 2 1 [[2], [3]]))"
    "globals ?w ''y_np'' = Some (VMat yn)"
    by (simp_all add: example_mlp_world_def example_world_def)
  have s: "nrows (Mat 1 2 [[1, 2 :: real]]) = 1" "ncols (Mat 1 2 [[1, 2 :: real]]) = 2"
    "nrows (Mat 2 2 [[1, -1], [0, 0 :: real]]) = 2" "ncols (Mat 2 2 [[1, -1], [0, 0 :: real]]) = 2"
    "nrows (Mat 2 1 [[2], [3 :: real]]) = 2" "ncols (Mat 2 1 [[2], [3 :: real]]) = 1"
    "nrows yn = 1" "ncols yn = 1"
    using assms by simp_all
  have r: "matrix_product (tf_nn_relu (matrix_product (Mat 1 2 [[1, 2]]) (Mat 2 2 [[1, -1], [0, 0]])))
             (Mat 2 1 [[2], [3]]) = Mat 1 1 [[2]]"
    by (simp add: matrix_product_def dot_row_def column_def tf_nn_relu_def map_mat_def upt_rec)
  from tensorflow_cell_succeeds [OF g s] show ?thesis
    unfolding r by auto
qed




section \<open>Sessions are closed\<close>

lemma keepsD:
  "keeps e \<Longrightarrow> e w = (r, u) \<Longrightarrow> tf_open_sessions u = tf_open_sessions w \<and> globals u = globals w"
  unfolding keeps_def by (metis snd_conv)

lemma keepsI:
  assumes "\<And>w r u. e w = (r, u) \<Longrightarrow> tf_open_sessions u = tf_open_sessions w \<and> globals u = globals w"
  shows "keeps e"
  unfolding keeps_def
proof
  fix w show "tf_open_sessions (snd (e w)) = tf_open_sessions w \<and> globals (snd (e w)) = globals w"
    using assms [of w "fst (e w)" "snd (e w)"] by simp
qed

lemma keeps_var: "keeps (var n)"
  by (simp add: keeps_def var_def split: option.splits)

lemma keeps_const: "keeps (const v)"
  by (simp add: keeps_def const_def)

lemma keeps_args: "list_all keeps es \<Longrightarrow> keeps (args es)"
proof (induction es)
  case Nil
  show ?case by (simp add: keeps_def)
next
  case (Cons e es)
  then have e: "keeps e" and es: "keeps (args es)" by simp_all
  show ?case
    by (rule keepsI) (auto split: prod.splits sum.splits dest!: keepsD [OF e] keepsD [OF es])
qed

lemma keeps_invoke: "quiet f \<Longrightarrow> keeps (invoke name f vs)"
  unfolding keeps_def quiet_def invoke_def logged_def
  by (auto split: option.splits sum.splits prod.splits)

lemma keeps_op:
  assumes "quiet f" "list_all keeps es"
  shows "keeps (op name f es)"
  by (rule keepsI)
    (auto simp: op_def split: prod.splits sum.splits
      dest!: keepsD [OF keeps_args [OF assms(2)]] keepsD [OF keeps_invoke [OF assms(1)]])

lemma keeps_call:
  assumes "quiet f" "list_all keeps es"
  shows "keeps (call m name f es)"
  by (rule keepsI)
    (auto simp: call_def split: option.splits pyval.splits dest!: keepsD [OF keeps_op [OF assms]])

lemma keeps_callv:
  assumes "quiet f" "list_all keeps es"
  shows "keeps (callv c f es)"
  by (rule keepsI)
    (auto simp: callv_def split: option.splits pyval.splits dest!: keepsD [OF keeps_op [OF assms]])

lemma keeps_pure:
  assumes "list_all keeps es"
  shows "keeps (pure f es)"
  by (rule keepsI)
    (auto simp: pure_def split: prod.splits sum.splits dest!: keepsD [OF keeps_args [OF assms]])

lemma keeps_list_display: "list_all keeps es \<Longrightarrow> keeps (list_display es)"
  by (simp add: list_display_def keeps_pure)

lemma keeps_tuple_display: "list_all keeps es \<Longrightarrow> keeps (tuple_display es)"
  by (simp add: tuple_display_def keeps_pure)

lemma epreserves_keeps: "keeps e \<Longrightarrow> epreserves (holds I) e"
  by (simp add: epreserves_def keeps_def holds_def)

lemma epreserves_call_method:
  assumes f: "quiet_method f" and es: "list_all keeps es" and st: "stable I v"
  shows "epreserves (holds I) (call_method v name has f es)"
  unfolding epreserves_def
proof (intro allI impI)
  fix w assume I: "holds I w"
  obtain r w1 where a: "args es w = (r, w1)" by (cases "args es w")
  from keepsD [OF keeps_args [OF es] a] I have I1: "holds I w1" by (simp add: holds_def)
  from f have q: "\<And>obj vs w v obj' u. f obj vs w = Inr (v, obj', u) \<Longrightarrow>
      tf_open_sessions u = tf_open_sessions w \<and> globals u = globals w"
    unfolding quiet_method_def by blast
  from st have s: "\<And>j g x. I j g \<Longrightarrow> I j (g(v \<mapsto> x))" unfolding stable_def by blast
  show "holds I (snd (call_method v name has f es w))"
    using I I1 a
    by (auto simp: call_method_def op_def invoke_def logged_def holds_def
        split: option.splits sum.splits prod.splits dest!: q intro!: s)
qed

lemma session_run_open:
  "session_run obj vs w = Inr (r, obj', u) \<Longrightarrow> u = w \<and> (\<exists>st. obj' = VSession (Session False st))"
  by (auto simp: session_run_def split: pyval.splits session.splits list.splits option.splits
      sum.splits if_splits prod.splits)

lemma epreserves_session_run:
  assumes es: "list_all keeps es"
  shows "epreserves (holds (one_open k v)) (call_method v name is_session session_run es)"
  unfolding epreserves_def
proof (intro allI impI)
  fix w assume I: "holds (one_open k v) w"
  obtain r w1 where a: "args es w = (r, w1)" by (cases "args es w")
  from keepsD [OF keeps_args [OF es] a] I have I1: "holds (one_open k v) w1"
    by (simp add: holds_def)
  show "holds (one_open k v) (snd (call_method v name is_session session_run es w))"
    using I I1 a
    by (auto simp: call_method_def op_def invoke_def logged_def holds_def one_open_def
        split: option.splits sum.splits prod.splits
        dest!: session_run_open)
qed

lemma epreservesD: "epreserves P e \<Longrightarrow> P w \<Longrightarrow> e w = (r, u) \<Longrightarrow> P u"
  unfolding epreserves_def by (metis snd_conv)

lemma preservesD: "preserves P s \<Longrightarrow> P w \<Longrightarrow> s w = (u, r) \<Longrightarrow> P u"
  unfolding preserves_def by (metis fst_conv)

lemma preservesI:
  assumes "\<And>w u r. P w \<Longrightarrow> s w = (u, r) \<Longrightarrow> P u"
  shows "preserves P s"
  unfolding preserves_def
proof (intro allI impI)
  fix w assume "P w"
  then show "P (fst (s w))" using assms [of w "fst (s w)" "snd (s w)"] by simp
qed

lemma stableD: "stable I n \<Longrightarrow> holds I w \<Longrightarrow> holds I (bind_name n v w)"
  by (simp add: stable_def holds_def bind_name_def)

lemma holds_out [simp]: "holds I (w\<lparr>out := x\<rparr>) = holds I w"
  by (simp add: holds_def)

lemma preserves_assign:
  assumes e: "epreserves (holds I) e" and n: "stable I n"
  shows "preserves (holds I) (assign n e)"
proof (rule preservesI)
  fix w u r assume I: "holds I w" and a: "assign n e w = (u, r)"
  obtain x w1 where x: "e w = (x, w1)" by (cases "e w")
  from epreservesD [OF e I x] have "holds I w1" .
  with a x stableD [OF n this] show "holds I u"
    by (auto simp: assign_def split: sum.splits)
qed

lemma preserves_expr:
  assumes e: "epreserves (holds I) e"
  shows "preserves (holds I) (expr e)"
proof (rule preservesI)
  fix w u r assume I: "holds I w" and a: "expr e w = (u, r)"
  obtain x w1 where x: "e w = (x, w1)" by (cases "e w")
  from epreservesD [OF e I x] have "holds I w1" .
  with a x show "holds I u"
    by (auto simp: expr_def split: sum.splits)
qed

lemma preserves_display:
  assumes e: "epreserves (holds I) e"
  shows "preserves (holds I) (display e)"
proof (rule preservesI)
  fix w u r assume I: "holds I w" and a: "display e w = (u, r)"
  obtain x w1 where x: "e w = (x, w1)" by (cases "e w")
  from epreservesD [OF e I x] have "holds I w1" .
  with a x show "holds I u"
    by (auto simp: display_def split: sum.splits if_splits)
qed

lemma preserves_seq: "list_all (preserves P) ss \<Longrightarrow> preserves P (seq ss)"
proof (induction ss)
  case Nil
  show ?case by (simp add: preserves_def)
next
  case (Cons s ss)
  then have s: "preserves P s" and ss: "preserves P (seq ss)" by simp_all
  show ?case
  proof (rule preservesI)
    fix w u r assume I: "P w" and a: "seq (s # ss) w = (u, r)"
    obtain w1 r1 where x: "s w = (w1, r1)" by (cases "s w")
    from preservesD [OF s I x] have I1: "P w1" .
    show "P u"
    proof (cases r1)
      case None
      with a x have "seq ss w1 = (u, r)" by simp
      from preservesD [OF ss I1 this] show ?thesis .
    next
      case (Some e)
      with a x I1 show ?thesis by simp
    qed
  qed
qed

lemma preserves_for_range:
  assumes n: "stable I n" and b: "preserves (holds I) body"
  shows "preserves (holds I) (for_range n k body)"
  unfolding for_range_def
  by (rule preserves_seq)
    (simp add: list_all_iff preserves_seq preserves_assign epreserves_keeps keeps_const n b)

lemma preserves_if_true:
  assumes c: "epreserves P c" and b: "preserves P body"
  shows "preserves P (if_true c body)"
proof (rule preservesI)
  fix w u r assume I: "P w" and a: "if_true c body w = (u, r)"
  obtain x w1 where x: "c w = (x, w1)" by (cases "c w")
  from epreservesD [OF c I x] have I1: "P w1" .
  show "P u"
  proof (cases x)
    case (Inl e)
    with a x I1 show ?thesis by (simp add: if_true_def)
  next
    case (Inr v)
    show ?thesis
    proof (cases "truthy v")
      case True
      with a x Inr have "body w1 = (u, r)" by (simp add: if_true_def)
      from preservesD [OF b I1 this] show ?thesis .
    next
      case False
      with a x Inr I1 show ?thesis by (simp add: if_true_def)
    qed
  qed
qed

lemma preserves_append_to:
  assumes e: "epreserves (holds I) e" and n: "stable I n"
  shows "preserves (holds I) (append_to n e)"
proof (rule preservesI)
  fix w u r assume I: "holds I w" and a: "append_to n e w = (u, r)"
  obtain x w1 where x: "e w = (x, w1)" by (cases "e w")
  from epreservesD [OF e I x] have "holds I w1" .
  with a x I stableD [OF n this] show "holds I u"
    by (auto simp: append_to_def split: sum.splits option.splits)
qed

lemma bind_target_holds:
  "list_all (stable I) (target_names t) \<Longrightarrow> holds I w \<Longrightarrow> holds I (fst (bind_target t v w))"
  "list_all (stable I) (concat (map target_names ts)) \<Longrightarrow> holds I w \<Longrightarrow>
     holds I (fst (bind_targets ts vs w))"
proof (induction t v w and ts vs w rule: bind_target_bind_targets.induct)
  case (1 n v w)
  then show ?case by (simp add: stableD)
next
  case (2 ts v w)
  then show ?case by (auto split: pyval.splits)
next
  case (3 vs w)
  then show ?case by simp
next
  case (4 t ts vs w)
  show ?case
  proof (cases vs)
    case Nil
    with 4 show ?thesis by simp
  next
    case (Cons v vs')
    obtain w1 r1 where x: "bind_target t v w = (w1, r1)" by (cases "bind_target t v w")
    from 4(1) [OF Cons] 4(3,4) x have I1: "holds I w1" by simp
    show ?thesis
    proof (cases r1)
      case None
      with 4(2) [OF Cons x [symmetric]] 4(3) I1 Cons x show ?thesis by simp
    next
      case (Some e)
      with Cons x I1 show ?thesis by simp
    qed
  qed
qed

lemma preserves_unpack:
  assumes e: "epreserves (holds I) e" and n: "list_all (stable I) (target_names t)"
  shows "preserves (holds I) (unpack t e)"
proof (rule preservesI)
  fix w u r assume I: "holds I w" and a: "unpack t e w = (u, r)"
  obtain x w1 where x: "e w = (x, w1)" by (cases "e w")
  from epreservesD [OF e I x] have I1: "holds I w1" .
  show "holds I u"
  proof (cases x)
    case (Inl e)
    with a x I1 show ?thesis by (simp add: unpack_def)
  next
    case (Inr v)
    with a x have "bind_target t v w1 = (u, r)" by (simp add: unpack_def)
    with bind_target_holds(1) [OF n I1, of v] show ?thesis by simp
  qed
qed

lemma quiet_import: "quiet (\<lambda>vs w. Inr (VModule lib, w))"
  by (simp add: quiet_def)

lemma preserves_import: "stable I n \<Longrightarrow> preserves (holds I) (import_name n lib)"
  unfolding import_name_def
  by (intro preserves_assign epreserves_keeps keeps_invoke quiet_import)

lemma stable_all_closed [simp]: "stable (all_closed k) n"
  by (simp add: stable_def all_closed_def)

lemma stable_one_open [simp]: "n \<noteq> m \<Longrightarrow> stable (one_open k m) n"
  by (simp add: stable_def one_open_def)

lemma open_session:
  assumes "holds (all_closed k) w"
    and "assign n (call ''tf'' ''Session'' tf_Session []) w = (u, r)"
  shows "if r = None then holds (one_open k n) u else holds (all_closed k) u"
  using assms
  by (auto simp: assign_def call_def op_def invoke_def logged_def tf_Session_def bind_name_def
      holds_def all_closed_def one_open_def
      split: option.splits pyval.splits sum.splits prod.splits if_splits)

lemma close_session_closes:
  assumes "holds (one_open k n) w" and "globals w n = Some obj"
    and "close_session obj w = (obj1, u)"
  shows "holds (all_closed k) (bind_name n obj1 u)"
  using assms
  by (auto simp: close_session_def bind_name_def holds_def all_closed_def one_open_def)

lemma preserves_with_session:
  assumes b: "preserves (holds (one_open k n)) body"
  shows "preserves (holds (all_closed k)) (with_session n body)"
proof (rule preservesI)
  fix w u r assume I: "holds (all_closed k) w" and a: "with_session n body w = (u, r)"
  obtain w1 r1 where x: "assign n (call ''tf'' ''Session'' tf_Session []) w = (w1, r1)"
    by (cases "assign n (call ''tf'' ''Session'' tf_Session []) w")
  note o = open_session [OF I x]
  show "holds (all_closed k) u"
  proof (cases r1)
    case (Some e)
    with a x have "u = w1" "r = r1" by (simp_all add: with_session_def)
    with o Some show ?thesis by simp
  next
    case None
    with o have I1: "holds (one_open k n) w1" by simp
    obtain w2 r2 where y: "body w1 = (w2, r2)" by (cases "body w1")
    from preservesD [OF b I1 y] have I2: "holds (one_open k n) w2" .
    then obtain obj where g: "globals w2 n = Some obj" by (auto simp: holds_def one_open_def)
    obtain obj1 w3 where c: "close_session obj w2 = (obj1, w3)" by (cases "close_session obj w2")
    from a x None y g c have "u = bind_name n obj1 w3" by (simp add: with_session_def)
    with close_session_closes [OF I2 g c] show ?thesis by simp
  qed
qed

lemma completesD: "completes P s Q \<Longrightarrow> P w \<Longrightarrow> s w = (u, None) \<Longrightarrow> Q u"
  unfolding completes_def by (metis fst_conv snd_conv)

lemma completesI:
  assumes "\<And>w u. P w \<Longrightarrow> s w = (u, None) \<Longrightarrow> Q u"
  shows "completes P s Q"
  unfolding completes_def
proof (intro allI impI)
  fix w assume "P w" "snd (s w) = None"
  then show "Q (fst (s w))" using assms [of w "fst (s w)"] by (cases "s w") simp
qed

lemma completes_preserves: "preserves P s \<Longrightarrow> completes P s P"
  by (rule completesI) (rule preservesD)

lemma completes_open:
  "completes (holds (all_closed k)) (assign n (call ''tf'' ''Session'' tf_Session []))
     (holds (one_open k n))"
proof (rule completesI)
  fix w u assume "holds (all_closed k) w" "assign n (call ''tf'' ''Session'' tf_Session []) w = (u, None)"
  from open_session [OF this] show "holds (one_open k n) u" by simp
qed

lemma completes_close:
  "completes (holds (one_open k n)) (expr (call_method n ''close'' is_session session_close []))
     (holds (all_closed k))"
  by (rule completesI)
    (auto simp: expr_def call_method_def op_def invoke_def logged_def session_close_def
      close_session_def holds_def all_closed_def one_open_def
      split: option.splits sum.splits prod.splits if_splits)

lemma completes_Nil: "completes P (seq []) P"
  by (simp add: completes_def)

lemma completes_Cons:
  assumes s: "completes P s Q" and ss: "completes Q (seq ss) R"
  shows "completes P (seq (s # ss)) R"
proof (rule completesI)
  fix w u assume I: "P w" and a: "seq (s # ss) w = (u, None)"
  obtain w1 r1 where x: "s w = (w1, r1)" by (cases "s w")
  with a have r1: "r1 = None" and b: "seq ss w1 = (u, None)" by (auto split: option.splits)
  from completesD [OF s I] x r1 have "Q w1" by simp
  from completesD [OF ss this b] show "R u" .
qed

lemma quiet_library:
  "quiet tf_reset_default_graph" "quiet tf_placeholder" "quiet tf_constant_initializer"
  "quiet (tf_get_variable name)" "quiet (tensor_op2 node2)" "quiet (tensor_op1 node1)"
  "quiet tf_global_variables_initializer" "quiet (tf_GradientDescentOptimizer lr)"
  "quiet py_print" "quiet plt_scatter" "quiet plt_figure" "quiet plt_plot" "quiet plt_imshow"
  "quiet plt_colorbar" "quiet keras_clear_session" "quiet (nd_divide d)" "quiet nd_getitem"
  "quiet nd_reshape" "quiet (opaque name)" "quiet (keras_Dense a)" "quiet keras_Sequential"
  unfolding quiet_def
  by (auto simp: tf_reset_default_graph_def tf_placeholder_def tf_constant_initializer_def
      tf_get_variable_def tensor_op2_def tensor_op1_def tf_global_variables_initializer_def
      tf_GradientDescentOptimizer_def py_print_def plt_scatter_def plt_figure_def plt_plot_def
      plt_imshow_def plt_colorbar_def keras_clear_session_def nd_divide_def nd_getitem_def
      nd_reshape_def opaque_def keras_Dense_def keras_Sequential_def
      split: list.splits pyval.splits sum.splits if_splits option.splits)

lemma quiet_tensor_ops:
  "quiet tf_matmul" "quiet tf_relu" "quiet tf_subtract" "quiet tf_square" "quiet tf_reduce_mean"
  by (simp_all add: tf_matmul_def tf_relu_def tf_subtract_def tf_square_def tf_reduce_mean_def
      quiet_library)

lemma quiet_methods:
  "quiet_method optimizer_minimize" "quiet_method model_add" "quiet_method (model_set_weights i)"
  "quiet_method model_summary" "quiet_method (opaque_method name)"
  unfolding quiet_method_def
  by (auto simp: optimizer_minimize_def model_add_def model_set_weights_def model_summary_def
      opaque_method_def
      split: list.splits pyval.splits sum.splits if_splits option.splits prod.splits)

lemma seq_append:
  "seq (xs @ ys) w = (case seq xs w of (w1, Some e) \<Rightarrow> (w1, Some e) | (w1, None) \<Rightarrow> seq ys w1)"
  by (induction xs arbitrary: w) (auto split: prod.splits option.splits)

lemma completes_append:
  assumes s: "completes P (seq xs) Q" and ss: "completes Q (seq ys) R"
  shows "completes P (seq (xs @ ys)) R"
proof (rule completesI)
  fix w u assume I: "P w" and a: "seq (xs @ ys) w = (u, None)"
  obtain w1 r1 where x: "seq xs w = (w1, r1)" by (cases "seq xs w")
  with a have r1: "r1 = None" and b: "seq ys w1 = (u, None)"
    by (auto simp: seq_append split: option.splits)
  from completesD [OF s I] x r1 have "Q w1" by simp
  from completesD [OF ss this b] show "R u" .
qed

lemma list_all_NilI: "list_all P []"
  by simp

lemma list_all_ConsI: "P x \<Longrightarrow> list_all P xs \<Longrightarrow> list_all P (x # xs)"
  by simp

lemma epreserves_forms:
  "epreserves (holds I) (var n)"
  "epreserves (holds I) (const v)"
  "quiet f \<Longrightarrow> list_all keeps es \<Longrightarrow> epreserves (holds I) (call m name f es)"
  "quiet f \<Longrightarrow> list_all keeps es \<Longrightarrow> epreserves (holds I) (callv m f es)"
  "quiet f \<Longrightarrow> list_all keeps es \<Longrightarrow> epreserves (holds I) (op name f es)"
  "list_all keeps es \<Longrightarrow> epreserves (holds I) (pure g es)"
  "list_all keeps es \<Longrightarrow> epreserves (holds I) (list_display es)"
  "list_all keeps es \<Longrightarrow> epreserves (holds I) (tuple_display es)"
  by (simp_all add: epreserves_keeps keeps_var keeps_const keeps_call keeps_callv keeps_op
      keeps_pure keeps_list_display keeps_tuple_display)

lemmas keeps_forms = keeps_var keeps_const keeps_call keeps_callv keeps_op keeps_pure
  keeps_list_display keeps_tuple_display list_all_NilI list_all_ConsI quiet_library
  quiet_tensor_ops

lemmas preserves_forms = preserves_seq preserves_assign preserves_expr preserves_display
  preserves_unpack preserves_append_to preserves_if_true preserves_for_range preserves_import
  epreserves_forms keeps_forms

lemma build_graph_sessions: "list_all (preserves (holds (all_closed k))) build_graph"
  unfolding build_graph_def by (intro preserves_forms) simp_all

lemma train_step_sessions: "preserves (holds (one_open k ''sess'')) train_step"
  unfolding train_step_def by (intro preserves_forms epreserves_session_run) simp_all

lemma loss_session_sessions: "preserves (holds (all_closed k)) loss_session"
  unfolding loss_session_def
  by (intro preserves_with_session preserves_forms epreserves_session_run) simp_all

lemma training_session_sessions: "preserves (holds (all_closed k)) training_session"
  unfolding training_session_def
  by (intro preserves_with_session preserves_forms epreserves_session_run train_step_sessions)
    simp_all

lemma define_loss_sessions: "list_all (preserves (holds (all_closed k))) define_loss"
  unfolding define_loss_def
  by (intro preserves_forms epreserves_call_method quiet_methods loss_session_sessions) simp_all

lemma training_loop_sessions: "list_all (preserves (holds (all_closed k))) training_loop"
  unfolding training_loop_def
  by (intro preserves_forms training_session_sessions) simp_all

lemma run_graph_sessions:
  "completes (holds (all_closed k)) (seq run_graph) (holds (all_closed k))"
proof -
  have 1: "preserves (holds (one_open k ''sess''))
      (expr (call_method ''sess'' ''run'' is_session session_run
              [call ''tf'' ''global_variables_initializer'' tf_global_variables_initializer []]))"
    by (intro preserves_forms epreserves_session_run)
  have 2: "preserves (holds (one_open k ''sess''))
      (assign ''y_val'' (call_method ''sess'' ''run'' is_session session_run [var ''y'', var ''x'', var ''x_np'']))"
    by (intro preserves_forms epreserves_session_run) simp_all
  have 3: "preserves (holds (all_closed k)) (expr (op ''print'' py_print [var ''y_val'']))"
    by (intro preserves_forms)
  show ?thesis
    unfolding run_graph_def
    by (intro completes_Cons [OF completes_open] completes_Cons [OF completes_preserves [OF 1]]
        completes_Cons [OF completes_preserves [OF 2]] completes_Cons [OF completes_close]
        completes_Cons [OF completes_preserves [OF 3]] completes_Nil)
qed

lemma completes_seq: "list_all (preserves P) ss \<Longrightarrow> completes P (seq ss) P"
  by (intro completes_preserves preserves_seq)

lemma tensorflow_cell_sessions:
  "completes (holds (all_closed k)) tensorflow_cell (holds (all_closed k))"
proof -
  have 1: "list_all (preserves (holds (all_closed k)))
      [expr (call ''tf'' ''reset_default_graph'' tf_reset_default_graph [])]"
    by (intro preserves_forms)
  have 2: "list_all (preserves (holds (all_closed k)))
      [display (call ''plt'' ''scatter'' plt_scatter [var ''y_val'', var ''y_np''])]"
    by (intro preserves_forms)
  show ?thesis
    unfolding tensorflow_cell_def
    by (rule completes_append [OF completes_seq [OF 1]
          completes_append [OF completes_seq [OF build_graph_sessions]
            completes_append [OF run_graph_sessions completes_seq [OF 2]]]])
qed

lemma training_cell_sessions:
  "completes (holds (all_closed k)) training_cell (holds (all_closed k))"
proof -
  have 1: "list_all (preserves (holds (all_closed k)))
      [expr (call ''tf'' ''reset_default_graph'' tf_reset_default_graph []),
       expr (call ''keras'' ''backend.clear_session'' keras_clear_session [])]"
    by (intro preserves_forms)
  have 2: "list_all (preserves (holds (all_closed k)))
      [expr (call ''plt'' ''scatter'' plt_scatter [var ''y_val'', var ''y_np''])]"
    by (intro preserves_forms)
  show ?thesis
    unfolding training_cell_def
    by (rule completes_append [OF completes_seq [OF 1]
          completes_append [OF completes_seq [OF build_graph_sessions]
            completes_append [OF run_graph_sessions
              completes_append [OF completes_seq [OF 2]
                completes_append [OF completes_seq [OF define_loss_sessions]
                  completes_seq [OF training_loop_sessions]]]]]])
qed

lemma keras_cell_sessions: "preserves (holds (all_closed k)) keras_cell"
  unfolding keras_cell_def
  by (intro preserves_forms epreserves_call_method quiet_methods) simp_all

lemma mnist_cell_sessions: "preserves (holds (all_closed k)) mnist_cell"
  unfolding mnist_cell_def load_and_normalize_def append.simps
  by (intro preserves_forms) simp_all

lemma rnn_cell_sessions: "preserves (holds (all_closed k)) rnn_cell"
  unfolding rnn_cell_def reshape_for_rnn_def append.simps
  by (intro preserves_forms epreserves_call_method quiet_methods) simp_all

lemma tensorflow_cell_fetch_raises:
  assumes g: "globals w ''tf'' = Some (VModule m1)" "globals w ''plt'' = Some (VModule m2)"
      "globals w ''batch_size'' = Some (VInt (int b))" "globals w ''n_x'' = Some (VInt (int nx))"
      "globals w ''n_h'' = Some (VInt (int nh))" "globals w ''n_y'' = Some (VInt (int ny))"
      "globals w ''x_np'' = Some (VMat x)" "globals w ''W_h_np'' = Some (VMat Wh)"
      "globals w ''W_y_np'' = Some (VMat Wy)" "globals w ''y_np'' = Some (VMat yn)"
    and s: "nrows x = b" "ncols x = nx" "nrows Wh = nx" "ncols Wh = nh" "nrows Wy = nh" "ncols Wy = ny"
  shows "\<exists>w1. run_cell tensorflow_cell (fails_at 13 e) w = (w1, Some e)
      \<and> tf_open_sessions w1 = Suc (tf_open_sessions w)
      \<and> globals w1 ''sess'' = Some (VSession (Session False [(''W_h'', Wh), (''W_y'', Wy)]))
      \<and> globals w1 ''y_val'' = globals w ''y_val''
      \<and> last (calls w1) = (''sess.run'', Some e)"
  using g s
  by (simp add: tensorflow_cell_def build_graph_def run_graph_def exec_defs tf_defs shape_def
      fails_at_def)

text \<open>
  Claim C7, as stated, says that no session opened by a cell is open when the cell
  ends. In the TensorFlow cell the session is opened by \<open>sess = tf.Session()\<close> and closed
  by \<open>sess.close()\<close> three statements later. When \<open>y_val = sess.run(y, feed_dict={x: x_np})\<close>
  (the fourteenth library call of the cell) raises, the cell ends before \<open>sess.close()\<close>:
  one more session is open than before the cell, and \<open>sess\<close> is bound to it.
\<close>

theorem session_left_open_when_run_raises:
  "snd (run_cell tensorflow_cell (fails_at 13 (LibraryError ''ResourceExhaustedError'')) example_mlp_world)
     = Some (LibraryError ''ResourceExhaustedError'')
   \<and> tf_open_sessions example_mlp_world = 0
   \<and> tf_open_sessions
       (fst (run_cell tensorflow_cell (fails_at 13 (LibraryError ''ResourceExhaustedError'')) example_mlp_world))
     = 1
   \<and> globals
       (fst (run_cell tensorflow_cell (fails_at 13 (LibraryError ''ResourceExhaustedError'')) example_mlp_world))
       ''sess''
     = Some (VSession (Session False [(''W_h'', Mat 2 2 [[1, -1], [0, 0]]), (''W_y'', Mat 2 1 [[2], [3]])]))
   \<and> last (calls
       (fst (run_cell tensorflow_cell (fails_at 13 (LibraryError ''ResourceExhaustedError'')) example_mlp_world)))
     = (''sess.run'', Some (LibraryError ''ResourceExhaustedError''))"
proof -
  have g: "globals example_mlp_world ''tf'' = Some (VModule ''tensorflow'')"
    "globals example_mlp_world ''plt'' = Some (VModule ''matplotlib.pyplot'')"
    "globals example_mlp_world ''batch_size'' = Some (VInt (int 1))"
    "globals example_mlp_world ''n_x'' = Some (VInt (int 2))"
    "globals example_mlp_world ''n_h'' = Some (VInt (int 2))"
    "globals example_mlp_world ''n_y'' = Some (VInt (int 1))"
    "globals example_mlp_world ''x_np'' = Some (VMat (Mat 1 2 [[1, 2]]))"
    "globals example_mlp_world ''W_h_np'' = Some (VMat (Mat 2 2 [[1, -1], [0, 0]]))"
    "globals example_mlp_world ''W_y_np'' = Some (VMat (Mat 2 1 [[2], [3]]))"
    "globals example_mlp_world ''y_np'' = Some (VMat (Mat 1 1 [[2]]))"
    by (simp_all add: example_mlp_world_def example_world_def)
  have s: "nrows (Mat 1 2 [[1, 2 :: real]]) = 1" "ncols (Mat 1 2 [[1, 2 :: real]]) = 2"
    "nrows (Mat 2 2 [[1, -1], [0, 0 :: real]]) = 2" "ncols (Mat 2 2 [[1, -1], [0, 0 :: real]]) = 2"
    "nrows (Mat 2 1 [[2], [3 :: real]]) = 2" "ncols (Mat 2 1 [[2], [3 :: real]]) = 1"
    by simp_all
  have z: "tf_open_sessions example_mlp_world = 0"
    by (simp add: example_mlp_world_def example_world_def)
  from tensorflow_cell_fetch_raises [OF g s, of "LibraryError ''ResourceExhaustedError''"]
  show ?thesis unfolding z by auto
qed

text \<open>
  Claim C7, amended. The TensorFlow cell and the training cell, when they complete
  without raising, leave as many sessions open as they found: the session of
  \<open>sess = tf.Session()\<close> has been closed by \<open>sess.close()\<close>, and those of the two
  \<open>with tf.Session() as sess:\<close> blocks on leaving the block. A with-block leaves as many
  sessions open as it found also when its body raises. The other cells open no session.
\<close>

theorem sessions_closed_when_cell_completes:
  "(c \<in> {tensorflow_cell, training_cell} \<longrightarrow> snd (run_cell c fs w) = None \<longrightarrow>
      tf_open_sessions (fst (run_cell c fs w)) = tf_open_sessions w)
   \<and> (s \<in> {loss_session, training_session} \<longrightarrow>
      tf_open_sessions (fst (s w)) = tf_open_sessions w)
   \<and> (c' \<in> {keras_cell, mnist_cell, rnn_cell} \<longrightarrow>
      tf_open_sessions (fst (run_cell c' fs w)) = tf_open_sessions w)"
proof (intro conjI impI)
  let ?w = "w\<lparr>out := [], calls := [], faults := fs\<rparr>"
  have I: "holds (all_closed (tf_open_sessions w)) ?w" "holds (all_closed (tf_open_sessions w)) w"
    by (simp_all add: holds_def all_closed_def)
  {
    assume c: "c \<in> {tensorflow_cell, training_cell}" and r: "snd (run_cell c fs w) = None"
    from c have "completes (holds (all_closed (tf_open_sessions w))) c (holds (all_closed (tf_open_sessions w)))"
      using tensorflow_cell_sessions training_cell_sessions by auto
    with I(1) r have "holds (all_closed (tf_open_sessions w)) (fst (c ?w))"
      by (simp add: completes_def run_cell_def)
    then show "tf_open_sessions (fst (run_cell c fs w)) = tf_open_sessions w"
      by (simp add: holds_def all_closed_def run_cell_def)
  }
  {
    assume "s \<in> {loss_session, training_session}"
    then have "preserves (holds (all_closed (tf_open_sessions w))) s"
      using loss_session_sessions training_session_sessions by auto
    with I(2) have "holds (all_closed (tf_open_sessions w)) (fst (s w))"
      by (simp add: preserves_def)
    then show "tf_open_sessions (fst (s w)) = tf_open_sessions w"
      by (simp add: holds_def all_closed_def)
  }
  {
    assume "c' \<in> {keras_cell, mnist_cell, rnn_cell}"
    then have "preserves (holds (all_closed (tf_open_sessions w))) c'"
      using keras_cell_sessions mnist_cell_sessions rnn_cell_sessions by auto
    with I(1) have "holds (all_closed (tf_open_sessions w)) (fst (c' ?w))"
      by (simp add: preserves_def)
    then show "tf_open_sessions (fst (run_cell c' fs w)) = tf_open_sessions w"
      by (simp add: holds_def all_closed_def run_cell_def)
  }
qed

theorem sessions_closed_when_cell_completes_witness:
  "snd (run_cell tensorflow_cell (\<lambda>k. None) example_mlp_world) = None
   \<and> tf_open_sessions (fst (run_cell tensorflow_cell (\<lambda>k. None) example_mlp_world)) = 0
   \<and> tf_open_sessions (fst (training_session example_mlp_world)) = 0
   \<and> tf_open_sessions (fst (run_cell mnist_cell (\<lambda>k. None) example_mlp_world)) = 0"
proof -
  have e: "example_mlp_world\<lparr>globals := (globals example_mlp_world)(''y_np'' \<mapsto> VMat (Mat 1 1 [[2]]))\<rparr>
        = example_mlp_world"
  proof -
    have "globals example_mlp_world ''y_np'' = Some (VMat (Mat 1 1 [[2]]))"
      by (simp add: example_mlp_world_def)
    then show ?thesis by (simp only: fun_upd_idem) simp
  qed
  from example_mlp_run [of "Mat 1 1 [[2]]" 2]
  have r: "snd (run_cell tensorflow_cell (\<lambda>k. None) example_mlp_world) = None"
    unfolding e by auto
  have z: "tf_open_sessions example_mlp_world = 0"
    by (simp add: example_mlp_world_def example_world_def)
  from sessions_closed_when_cell_completes
    [of tensorflow_cell "\<lambda>k. None" example_mlp_world training_session mnist_cell] r z
  show ?thesis by simp
qed

section \<open>The training loop\<close>







section \<open>Entries of products and sums\<close>





lemma wf_matrix_product_any: "length (rows a) = nrows a \<Longrightarrow> wf_mat (matrix_product a b)"
  by (simp add: wf_mat_def matrix_product_def list_all_iff)

lemma sel_transpose_mat [simp]:
  "nrows (transpose_mat a) = ncols a" "ncols (transpose_mat a) = nrows a"
  by (simp_all add: transpose_mat_def)



lemma sel_hadamard [simp]:
  "nrows (hadamard a b) = nrows a" "ncols (hadamard a b) = ncols a"
  by (simp_all add: hadamard_def)



lemma sel_mat_add [simp]:
  "nrows (mat_add a b) = nrows a" "ncols (mat_add a b) = ncols a"
  by (simp_all add: mat_add_def)







lemma sel_set_entry [simp]:
  "nrows (set_entry W i j t) = nrows W" "ncols (set_entry W i j t) = ncols W"
  by (simp_all add: set_entry_def)



lemma unbroadcast_same [simp]: "nrows g = r \<Longrightarrow> ncols g = c \<Longrightarrow> unbroadcast r c g = g"
  by (simp add: unbroadcast_def)

section \<open>The gradient of the squared error\<close>







section \<open>The gradient is the derivative of the loss\<close>








lemma sel_descend [simp]:
  "nrows (descend lr W g) = nrows W" "ncols (descend lr W g) = ncols W"
  by (simp_all add: descend_def)









end
